theory Spec2Isabelle
  imports Main "HOL-Library.Sublist"
begin

section \<open>Go library functions used by the sources\<close>

text \<open>
  A Go \<open>error\<close> value is represented by its message; \<open>nil\<close> is \<open>None\<close> of
  \<open>error option\<close>, or the \<open>Inr\<close> side of a sum.
\<close>

type_synonym error = string

text \<open>
  \<open>strings.Contains(s, substr)\<close>: some position of \<open>s\<close> starts a copy of
  \<open>substr\<close>. The empty \<open>substr\<close> is contained in every string.
\<close>

fun strings_Contains :: "string \<Rightarrow> string \<Rightarrow> bool" where
  "strings_Contains [] substr = (substr = [])"
| "strings_Contains (c # s) substr = (prefix substr (c # s) \<or> strings_Contains s substr)"

text \<open>
  \<open>strings.Replace(s, old, new, -1)\<close>: the occurrences of \<open>old\<close> are found from
  left to right without overlap (the search resumes behind the occurrence just replaced), and
  the text that replaces an occurrence is not searched again. For an empty \<open>old\<close> Go inserts
  \<open>new\<close> in front of every character and at the end; both call sites below pass a
  constant, non-empty \<open>old\<close>.
\<close>

function strings_Replace :: "string \<Rightarrow> string \<Rightarrow> string \<Rightarrow> string" where
  "strings_Replace [] old new = (if old = [] then new else [])"
| "strings_Replace (c # s) old new =
     (if old = [] then new @ c # strings_Replace s old new
      else if prefix old (c # s)
           then new @ strings_Replace (drop (length old) (c # s)) old new
           else c # strings_Replace s old new)"
  by pat_completeness auto
termination
  by (relation "measure (\<lambda>(s, old, new). length s)") (auto simp: neq_Nil_conv)

text \<open>\<open>os.Getenv\<close>: the value of a variable of the process environment, empty when unset.\<close>

definition os_Getenv :: "(string \<rightharpoonup> string) \<Rightarrow> string \<Rightarrow> string" where
  "os_Getenv environ key = (case environ key of None \<Rightarrow> [] | Some v \<Rightarrow> v)"

section \<open>analysis/retirejs.go\<close>

record RetirejsIdentifier =
  IssueFound :: string
  Summary :: string
  CVE :: "string list"

record RetirejsVulnerability =
  Info :: "string list"
  Below :: string
  Severity :: string
  RetirejsIdentifiers :: RetirejsIdentifier

record RetirejsResult =
  Version :: string
  Component :: string
  Detection :: string
  RetirejsVulnerabilities :: "RetirejsVulnerability list"

record RetirejsIssue =
  File :: string
  RetirejsResults :: "RetirejsResult list"

record RetirejsOutput =
  RetirejsIssues :: "RetirejsIssue list"
  Messages :: string
  Errors :: string

text \<open>
  What \<open>RetirejsStartAnalysis\<close> does to the outside, in the order it does it: the update
  document handed to \<open>UpdateOneDBAnalysisContainer\<close> (the \<open>$set\<close> part of the
  \<open>bson.M\<close>, a map from field path to value, with the \<open>CID\<close> of the query), the call of
  \<open>json.Unmarshal\<close>, the messages given to \<open>glbgelf.Logger.SendLog\<close> and the operands
  of \<open>fmt.Println\<close>.
\<close>

datatype analysis_event =
    UpdateOne string "string \<rightharpoonup> string"
  | Unmarshal string
  | SendLog string "string list"
  | Println "string list"

text \<open>
  The collaborators of the evaluator, none of them in the two source files: the JSON decoder
  (an error, or the decoded \<open>RetirejsOutput\<close>), the persistence gateway and the log sink
  (each \<open>nil\<close> or an error).
\<close>

record analysis_env =
  json_Unmarshal :: "string \<Rightarrow> error + RetirejsOutput"
  UpdateOneDBAnalysisContainer :: "string \<Rightarrow> (string \<rightharpoonup> string) \<Rightarrow> error option"
  Logger_SendLog :: "string \<Rightarrow> string list \<Rightarrow> error option"

text \<open>
  \<open>if errLog := glbgelf.Logger.SendLog(..., "ERROR", msgs...); errLog != nil
  { fmt.Println("glbgelf error: ", errLog) }\<close>
\<close>

definition sendLogError :: "analysis_env \<Rightarrow> string list \<Rightarrow> analysis_event list" where
  "sendLogError env msgs =
     SendLog ''ERROR'' msgs #
       (case Logger_SendLog env ''ERROR'' msgs of
          None \<Rightarrow> []
        | Some errLog \<Rightarrow> [Println [''glbgelf error: '', errLog]])"

text \<open>
  \<open>err := UpdateOneDBAnalysisContainer(analysisQuery, updateContainerAnalysisQuery)\<close>
  followed by the report of a failed update.
\<close>

definition updateAndReport :: "analysis_env \<Rightarrow> string \<Rightarrow> (string \<rightharpoonup> string) \<Rightarrow> analysis_event list" where
  "updateAndReport env CID doc =
     UpdateOne CID doc #
       (case UpdateOneDBAnalysisContainer env CID doc of
          None \<Rightarrow> []
        | Some err \<Rightarrow>
            sendLogError env [''Error updating AnalysisCollection (inside retirejs.go):'', err])"

text \<open>
  Step 2, the three nested \<open>range\<close> loops. The \<open>break\<close> leaves the innermost loop only;
  the two outer loops go on with the next result and the next issue.
\<close>

fun scanVulnerabilities :: "string \<Rightarrow> RetirejsVulnerability list \<Rightarrow> string" where
  "scanVulnerabilities cResult [] = cResult"
| "scanVulnerabilities cResult (vulnerability # rest) =
     (if Severity vulnerability = ''high'' \<or> Severity vulnerability = ''medium''
      then ''failed''
      else scanVulnerabilities cResult rest)"

fun scanResults :: "string \<Rightarrow> RetirejsResult list \<Rightarrow> string" where
  "scanResults cResult [] = cResult"
| "scanResults cResult (result # rest) =
     scanResults (scanVulnerabilities cResult (RetirejsVulnerabilities result)) rest"

fun scanIssues :: "string \<Rightarrow> RetirejsIssue list \<Rightarrow> string" where
  "scanIssues cResult [] = cResult"
| "scanIssues cResult (issue # rest) =
     scanIssues (scanResults cResult (RetirejsResults issue)) rest"

definition RetirejsStartAnalysis :: "analysis_env \<Rightarrow> string \<Rightarrow> string \<Rightarrow> analysis_event list" where
  "RetirejsStartAnalysis env CID cOutput =
     (if strings_Contains cOutput ''ERROR_CLONING'' then
        (let errorOutput = ''Container error: '' @ cOutput
         in updateAndReport env CID
              [''containers.$.cOutput'' \<mapsto> errorOutput, ''containers.$.cResult'' \<mapsto> ''failed''])
      else
        Unmarshal cOutput #
        (case json_Unmarshal env cOutput of
           Inl err \<Rightarrow>
             sendLogError env [''Unmarshall error (inside retirejs.go):'', err]
               @ sendLogError env [cOutput]
         | Inr retirejsOutput \<Rightarrow>
             if length (RetirejsIssues retirejsOutput) = 0 then
               updateAndReport env CID [''containers.$.cOutput'' \<mapsto> ''No issues found.'']
             else
               (let cResult = scanIssues ''passed'' (RetirejsIssues retirejsOutput)
                in updateAndReport env CID [''containers.$.cResult'' \<mapsto> cResult])))"

text \<open>The update documents a run of the evaluator hands to the persistence gateway.\<close>

fun persisted :: "analysis_event list \<Rightarrow> (string \<times> (string \<rightharpoonup> string)) list" where
  "persisted [] = []"
| "persisted (UpdateOne CID doc # es) = (CID, doc) # persisted es"
| "persisted (e # es) = persisted es"

fun parseAttempts :: "analysis_event list \<Rightarrow> string list" where
  "parseAttempts [] = []"
| "parseAttempts (Unmarshal raw # es) = raw # parseAttempts es"
| "parseAttempts (e # es) = parseAttempts es"

text \<open>Every vulnerability of a decoded output, across its issues and results.\<close>

definition allVulnerabilities :: "RetirejsIssue list \<Rightarrow> RetirejsVulnerability list" where
  "allVulnerabilities issues =
     concat (map RetirejsVulnerabilities (concat (map RetirejsResults issues)))"

section \<open>api/container/container.go\<close>

subsection \<open>Command templates\<close>

definition HandleCmd :: "string \<Rightarrow> string \<Rightarrow> string \<Rightarrow> string" where
  "HandleCmd repositoryURL repositoryBranch cmd =
     (if repositoryURL \<noteq> [] \<and> repositoryBranch \<noteq> [] \<and> cmd \<noteq> [] then
        (let replace1 = strings_Replace cmd ''%GIT_REPO%'' repositoryURL;
             replace2 = strings_Replace replace1 ''%GIT_BRANCH%'' repositoryBranch
         in replace2)
      else [])"

text \<open>The first argument is the process environment that \<open>os.Getenv\<close> reads.\<close>

definition HandlePrivateSSHKey :: "(string \<rightharpoonup> string) \<Rightarrow> string \<Rightarrow> string" where
  "HandlePrivateSSHKey environ rawString =
     (let privKey = os_Getenv environ ''HUSKYCI_API_GIT_PRIVATE_SSH_KEY'';
          cmdReplaced = strings_Replace rawString ''GIT_PRIVATE_SSH_KEY'' privKey
      in cmdReplaced)"

subsection \<open>The container and the runtime it talks to\<close>

record Image =
  CanonicalURL :: string
  Name :: string
  Tag :: string

text \<open>
  \<open>dockerClient\<close> tells whether the pointer is set. \<open>StartedAt\<close> and
  \<open>FinishedAt\<close> are instants, as the clock reports them.
\<close>

record Container =
  dockerClient :: bool
  CID :: string
  Status :: string
  Command :: string
  Output :: string
  Image :: Image
  StartedAt :: int
  FinishedAt :: int

datatype log_arg = S string | I int | E "error option"

text \<open>
  The calls that leave the process, in the order they are made: the requests to the Docker
  API (with the arguments the source passes) and the calls of the \<open>log\<close> package
  (action, info, message code, further arguments). For \<open>PullImageWorker\<close> the trace
  also holds the timer and the ticker it sets up (with their \<open>time.Duration\<close>, a number
  of nanoseconds) and each receive its \<open>select\<close> makes, from \<open>retryTick.C\<close>
  or from \<open>timeout\<close>.
\<close>

datatype event =
    ImageList string
  | ImagePull string
  | ContainerCreate string bool "string list"
  | ContainerStart string
  | ContainerWait string
  | ContainerLogs string bool bool
  | ContainerRemove string
  | log_Error string string nat "log_arg list"
  | log_Info string string nat "log_arg list"
  | time_After int
  | time_NewTicker int
  | retryTick_received
  | timeout_received

text \<open>
  The answers of everything outside the two files. An answer may depend on all that happened
  before the call (the \<open>event list\<close>) and on the arguments of the call.
  \<open>ImageList_res\<close> gives the number of images returned, \<open>ContainerLogs_res\<close> the
  failure of \<open>ContainerLogs\<close> itself or else what \<open>ioutil.ReadAll\<close> makes of the stream.
  \<open>ticks_before_timeout\<close> is how many times the \<open>select\<close> of \<open>PullImageWorker\<close>
  takes the \<open>retryTick.C\<close> case before it takes the \<open>timeout\<close> case: it is fixed by the
  clock and the scheduler, not by the program.
\<close>

record runtime =
  Setenv_err :: "string \<Rightarrow> string \<Rightarrow> error option"
  NewEnvClient_err :: "(string \<rightharpoonup> string) \<Rightarrow> error option"
  ImageList_res :: "event list \<Rightarrow> string \<Rightarrow> error + nat"
  ImagePull_err :: "event list \<Rightarrow> string \<Rightarrow> error option"
  ticks_before_timeout :: nat
  ContainerCreate_res :: "event list \<Rightarrow> string \<Rightarrow> string list \<Rightarrow> error + string"
  ContainerStart_err :: "event list \<Rightarrow> string \<Rightarrow> error option"
  ContainerWait_res :: "event list \<Rightarrow> string \<Rightarrow> int \<times> error option"
  ContainerLogs_res :: "event list \<Rightarrow> string \<Rightarrow> error + (error + string)"
  ContainerRemove_err :: "event list \<Rightarrow> string \<Rightarrow> error option"
  time_Now :: "event list \<Rightarrow> int"

text \<open>What the program changes outside the container record: the process environment and the calls made so far.\<close>

record world =
  environ :: "string \<rightharpoonup> string"
  trace :: "event list"

definition emit :: "event \<Rightarrow> world \<Rightarrow> world" where
  "emit e w = w\<lparr>trace := trace w @ [e]\<rparr>"

definition os_Setenv :: "runtime \<Rightarrow> string \<Rightarrow> string \<Rightarrow> world \<Rightarrow> error option \<times> world" where
  "os_Setenv rt key val w =
     (case Setenv_err rt key val of
        Some err \<Rightarrow> (Some err, w)
      | None \<Rightarrow> (None, w\<lparr>environ := (environ w)(key \<mapsto> val)\<rparr>))"

definition setDockerClientEnvs :: "runtime \<Rightarrow> world \<Rightarrow> error option \<times> world" where
  "setDockerClientEnvs rt w =
     (let dockerAPIAddress = os_Getenv (environ w) ''HUSKYCI_DOCKERAPI_ADDR'';
          dockerAPIPort0 = os_Getenv (environ w) ''HUSKYCI_DOCKERAPI_PORT'';
          dockerAPIPort = (if dockerAPIPort0 = [] then ''2376'' else dockerAPIPort0);
          dockerHost = ''https://'' @ dockerAPIAddress @ '':'' @ dockerAPIPort;
          pathCertificate = os_Getenv (environ w) ''HUSKYCI_DOCKERAPI_CERT_PATH'';
          tlsVerify0 = os_Getenv (environ w) ''HUSKYCI_DOCKERAPI_TLS_VERIFY'';
          tlsVerify = (if tlsVerify0 = [] then ''1'' else tlsVerify0)
      in case os_Setenv rt ''DOCKER_HOST'' dockerHost w of
           (Some err, w1) \<Rightarrow>
             (Some err, emit (log_Error ''setDockerClientEnvs'' ''CONTAINER'' 3001 [E (Some err)]) w1)
         | (None, w1) \<Rightarrow>
        (case os_Setenv rt ''DOCKER_CERT_PATH'' pathCertificate w1 of
           (Some err, w2) \<Rightarrow>
             (Some err, emit (log_Error ''setDockerClientEnvs'' ''CONTAINER'' 3019 [E (Some err)]) w2)
         | (None, w2) \<Rightarrow>
        (case os_Setenv rt ''DOCKER_TLS_VERIFY'' tlsVerify w2 of
           (Some err, w3) \<Rightarrow>
             (Some err, emit (log_Error ''setDockerClientEnvs'' ''CONTAINER'' 3020 [E (Some err)]) w3)
         | (None, w3) \<Rightarrow> (None, w3))))"

definition NewDockerClient :: "runtime \<Rightarrow> Container \<Rightarrow> world \<Rightarrow> error option \<times> Container \<times> world" where
  "NewDockerClient rt c w =
     (case setDockerClientEnvs rt w of
        (Some err, w1) \<Rightarrow> (Some err, c, w1)
      | (None, w1) \<Rightarrow>
          (case NewEnvClient_err rt (environ w1) of
             Some err \<Rightarrow> (Some err, c, w1)
           | None \<Rightarrow> (None, c\<lparr>dockerClient := True\<rparr>, w1)))"

text \<open>
  The methods below call through \<open>c.dockerClient\<close>. When the pointer is nil the call
  panics (a nil pointer dereference in the client library) before any request is made:
  \<open>Panics\<close>, with the world as it is at that moment. Otherwise the method returns.
\<close>

datatype 'a outcome = Returns 'a | Panics world

definition fullImageName :: "Container \<Rightarrow> string" where
  "fullImageName c = Name (Image c) @ '':'' @ Tag (Image c)"

definition ImageIsLoaded :: "runtime \<Rightarrow> Container \<Rightarrow> world \<Rightarrow> ((error + bool) \<times> world) outcome" where
  "ImageIsLoaded rt c w =
     (if \<not> dockerClient c then Panics w
      else case ImageList_res rt (trace w) (fullImageName c) of
        Inl err \<Rightarrow> Returns (Inl err, emit (ImageList (fullImageName c)) w)
      | Inr n \<Rightarrow> Returns (Inr (n \<noteq> 0), emit (ImageList (fullImageName c)) w))"

definition PullImage :: "runtime \<Rightarrow> Container \<Rightarrow> world \<Rightarrow> (error option \<times> world) outcome" where
  "PullImage rt c w =
     (if \<not> dockerClient c then Panics w
      else Returns (ImagePull_err rt (trace w) (CanonicalURL (Image c)),
                    emit (ImagePull (CanonicalURL (Image c))) w))"

definition time_Second :: int where
  "time_Second = 1000000000"

definition time_Minute :: int where
  "time_Minute = 60 * time_Second"

text \<open>
  The \<open>for { select { ... } }\<close> of \<open>PullImageWorker\<close>; the first argument counts the
  ticks still to be taken before the timeout is.
\<close>

fun PullImageWorker_loop :: "nat \<Rightarrow> runtime \<Rightarrow> Container \<Rightarrow> world \<Rightarrow> (error option \<times> world) outcome" where
  "PullImageWorker_loop 0 rt c w =
     Returns (Some ''timeout'',
       emit (log_Error ''pullImageWorker'' ''HUSKYDOCKER'' 3013 [E (Some ''timeout'')])
         (emit timeout_received w))"
| "PullImageWorker_loop (Suc k) rt c w =
     (case ImageIsLoaded rt c
             (emit (log_Info ''pullImageWorker'' ''HUSKYDOCKER'' 31 [S (Name (Image c))])
                (emit retryTick_received w)) of
        Panics w1 \<Rightarrow> Panics w1
      | Returns (Inl err, w1) \<Rightarrow>
          Returns (Some err,
            emit (log_Error ''pullImageWorker'' ''HUSKYDOCKER'' 3029 [E (Some err)]) w1)
      | Returns (Inr isLoaded, w1) \<Rightarrow>
          if isLoaded then
            Returns (None,
              emit (log_Info ''pullImageWorker'' ''HUSKYDOCKER'' 35 [S (Name (Image c))]) w1)
          else
            (case PullImage rt c w1 of
               Panics w2 \<Rightarrow> Panics w2
             | Returns (Some err, w2) \<Rightarrow>
                 Returns (Some err,
                   emit (log_Error ''pullImageWorker'' ''HUSKYDOCKER'' 3013 [E (Some err)]) w2)
             | Returns (None, w2) \<Rightarrow> PullImageWorker_loop k rt c w2))"

definition PullImageWorker :: "runtime \<Rightarrow> Container \<Rightarrow> world \<Rightarrow> (error option \<times> world) outcome" where
  "PullImageWorker rt c w =
     PullImageWorker_loop (ticks_before_timeout rt) rt c
       (emit (time_NewTicker (15 * time_Second)) (emit (time_After (15 * time_Minute)) w))"

definition Create :: "runtime \<Rightarrow> string \<Rightarrow> string \<Rightarrow> Container \<Rightarrow> world \<Rightarrow> (error option \<times> Container \<times> world) outcome" where
  "Create rt repositoryURL branch c w =
     (let cmd = HandleCmd repositoryURL branch (Command c);
          finalCMD = HandlePrivateSSHKey (environ w) cmd;
          Cmd = [''/bin/sh'', ''-c'', finalCMD];
          w1 = emit (ContainerCreate (fullImageName c) True Cmd) w
      in if \<not> dockerClient c then Panics w
         else case ContainerCreate_res rt (trace w) (fullImageName c) Cmd of
           Inl err \<Rightarrow> Returns (Some err, c, w1)
         | Inr ID \<Rightarrow> Returns (None, c\<lparr>CID := ID\<rparr>, w1))"

definition Start :: "runtime \<Rightarrow> Container \<Rightarrow> world \<Rightarrow> (error option \<times> world) outcome" where
  "Start rt c w =
     (if \<not> dockerClient c then Panics w
      else Returns (ContainerStart_err rt (trace w) (CID c), emit (ContainerStart (CID c)) w))"

definition Wait :: "runtime \<Rightarrow> Container \<Rightarrow> world \<Rightarrow> (error option \<times> world) outcome" where
  "Wait rt c w =
     (if \<not> dockerClient c then Panics w
      else case ContainerWait_res rt (trace w) (CID c) of
        (statusCode, err) \<Rightarrow>
          Returns (err,
           if statusCode \<noteq> 0
           then emit (log_Error ''Wait'' ''CONTAINER'' 3028 [I statusCode, E err])
                  (emit (ContainerWait (CID c)) w)
           else emit (ContainerWait (CID c)) w))"

definition Remove :: "runtime \<Rightarrow> Container \<Rightarrow> world \<Rightarrow> (error option \<times> world) outcome" where
  "Remove rt c w =
     (if \<not> dockerClient c then Panics w
      else Returns (ContainerRemove_err rt (trace w) (CID c), emit (ContainerRemove (CID c)) w))"

definition ReadOutput :: "runtime \<Rightarrow> bool \<Rightarrow> bool \<Rightarrow> Container \<Rightarrow> world \<Rightarrow> (error option \<times> Container \<times> world) outcome" where
  "ReadOutput rt isSTDOUT isSTDERR c w =
     (let w1 = emit (ContainerLogs (CID c) isSTDOUT isSTDERR) w
      in if \<not> dockerClient c then Panics w
         else case ContainerLogs_res rt (trace w) (CID c) of
           Inl err \<Rightarrow> Returns (Some err, c, w1)
         | Inr (Inl err) \<Rightarrow> Returns (Some err, c, w1)
         | Inr (Inr body) \<Rightarrow> Returns (None, c\<lparr>Output := body\<rparr>, w1))"

text \<open>
  \<open>Run\<close>, step by step as in the source; every \<open>return\<close> is one \<open>Returns\<close>, and a
  panic of a step is the panic of \<open>Run\<close>. \<open>Run_step3\<close> is steps 3 to 7.
\<close>

definition Run_step3 :: "runtime \<Rightarrow> string \<Rightarrow> string \<Rightarrow> Container \<Rightarrow> world \<Rightarrow> (error option \<times> Container \<times> world) outcome" where
  "Run_step3 rt repositoryURL branch c w =
     (case Create rt repositoryURL branch c w of
        Panics w1 \<Rightarrow> Panics w1
      | Returns (Some err, c1, w1) \<Rightarrow>
          Returns (Some err, c1,
           emit (log_Error ''RUN'' ''CONTAINER'' 3014
                   [S (Name (Image c1)), S (Tag (Image c1)), E (Some err)]) w1)
      | Returns (None, c1, w1) \<Rightarrow>
     (let c2 = c1\<lparr>Status := ''created''\<rparr>;
          c3 = c2\<lparr>StartedAt := time_Now rt (trace w1)\<rparr>
      in case Start rt c3 w1 of
        Panics w2 \<Rightarrow> Panics w2
      | Returns (Some err, w2) \<Rightarrow>
          Returns (Some err, c3\<lparr>Status := ''finished''\<rparr>,
           emit (log_Error ''RUN'' ''CONTAINER'' 3015
                   [S (Name (Image c3)), S (Tag (Image c3)), E (Some err)]) w2)
      | Returns (None, w2) \<Rightarrow>
     (let w3 = emit (log_Info ''RUN'' ''CONTAINER'' 32 [S (Name (Image c3)), S (Tag (Image c3))]) w2;
          c4 = c3\<lparr>Status := ''running''\<rparr>
      in case Wait rt c4 w3 of
        Panics w4 \<Rightarrow> Panics w4
      | Returns (Some err, w4) \<Rightarrow>
          Returns (Some err, c4\<lparr>Status := ''finished''\<rparr>,
           emit (log_Error ''RUN'' ''CONTAINER'' 3016 [E (Some err)]) w4)
      | Returns (None, w4) \<Rightarrow>
     (let c5 = c4\<lparr>FinishedAt := time_Now rt (trace w4)\<rparr>
      in case ReadOutput rt True False c5 w4 of
        Panics w5 \<Rightarrow> Panics w5
      | Returns (Some err, c6, w5) \<Rightarrow>
          Returns (Some err, c6, emit (log_Error ''RUN'' ''CONTAINER'' 3007 [E (Some err)]) w5)
      | Returns (None, c6, w5) \<Rightarrow>
     (let w6 = emit (log_Info ''RUN'' ''CONTAINER'' 34 [S (Name (Image c6)), S (Tag (Image c6))]) w5;
          c7 = c6\<lparr>Status := ''finished''\<rparr>
      in case Remove rt c7 w6 of
        Panics w7 \<Rightarrow> Panics w7
      | Returns (Some err, w7) \<Rightarrow>
          Returns (None, c7, emit (log_Error ''RUN'' ''CONTAINER'' 3027 [E (Some err)]) w7)
      | Returns (None, w7) \<Rightarrow> Returns (None, c7, w7))))))"

definition Run :: "runtime \<Rightarrow> string \<Rightarrow> string \<Rightarrow> Container \<Rightarrow> world \<Rightarrow> (error option \<times> Container \<times> world) outcome" where
  "Run rt repositoryURL branch c w =
     (case NewDockerClient rt c w of
        (Some err, c1, w1) \<Rightarrow>
          Returns (Some err, c1, emit (log_Error ''RUN'' ''CONTAINER'' 3005 [E (Some err)]) w1)
      | (None, c1, w1) \<Rightarrow>
     (case ImageIsLoaded rt c1 w1 of
        Panics w2 \<Rightarrow> Panics w2
      | Returns (Inl err, w2) \<Rightarrow> Returns (Some err, c1, w2)
      | Returns (Inr imageIsLoaded, w2) \<Rightarrow>
          if \<not> imageIsLoaded then
            (case PullImageWorker rt c1 w2 of
               Panics w3 \<Rightarrow> Panics w3
             | Returns (Some err, w3) \<Rightarrow> Returns (Some err, c1, w3)
             | Returns (None, w3) \<Rightarrow> Run_step3 rt repositoryURL branch c1 w3)
          else Run_step3 rt repositoryURL branch c1 w2))"

section \<open>The resolver as the specification words it\<close>

text \<open>
  The specification describes the result of \<open>HandleCmd\<close> as the template in which each
  occurrence of a placeholder is replaced once. \<open>HandleCmd_spec\<close> follows these words,
  not the source: one pass over the template from left to right, in which an
  occurrence of \<open>%GIT_REPO%\<close> becomes the repository URL, an occurrence of
  \<open>%GIT_BRANCH%\<close> becomes the branch, and the inserted text is not looked at again.
\<close>

function substituteTokens :: "string \<Rightarrow> string \<Rightarrow> string \<Rightarrow> string" where
  "substituteTokens [] repositoryURL repositoryBranch = []"
| "substituteTokens (c # s) repositoryURL repositoryBranch =
     (if prefix ''%GIT_REPO%'' (c # s)
      then repositoryURL
             @ substituteTokens (drop (length ''%GIT_REPO%'') (c # s)) repositoryURL repositoryBranch
      else if prefix ''%GIT_BRANCH%'' (c # s)
      then repositoryBranch
             @ substituteTokens (drop (length ''%GIT_BRANCH%'') (c # s)) repositoryURL repositoryBranch
      else c # substituteTokens s repositoryURL repositoryBranch)"
  by pat_completeness auto
termination
  by (relation "measure (\<lambda>(s, u, b). length s)") auto

definition HandleCmd_spec :: "string \<Rightarrow> string \<Rightarrow> string \<Rightarrow> string" where
  "HandleCmd_spec repositoryURL repositoryBranch cmd =
     (if repositoryURL = [] \<or> repositoryBranch = [] \<or> cmd = [] then []
      else substituteTokens cmd repositoryURL repositoryBranch)"

section \<open>Sample inputs\<close>

subsection \<open>Scanner outputs and their decoding\<close>

definition rawHighFinding :: string where
  \<open>rawHighFinding =
     ''{"data":[{"file":"a.js","results":[{"version":"1.0","component":"lib","detection":"x","vulnerabilities":[{"severity":"high","below":"1.1","identifiers":{"issue":"I1","summary":"S","CVE":["CVE-1"]}}]}]}]}''\<close>

definition outHighFinding :: RetirejsOutput where
  "outHighFinding =
     \<lparr>RetirejsIssues =
        [\<lparr>File = ''a.js'',
          RetirejsResults =
            [\<lparr>Version = ''1.0'', Component = ''lib'', Detection = ''x'',
              RetirejsVulnerabilities =
                [\<lparr>Info = [], Below = ''1.1'', Severity = ''high'',
                  RetirejsIdentifiers =
                    \<lparr>IssueFound = ''I1'', Summary = ''S'', CVE = [''CVE-1'']\<rparr>\<rparr>]\<rparr>]\<rparr>],
      Messages = [], Errors = []\<rparr>"

definition rawOtherSeverities :: string where
  \<open>rawOtherSeverities =
     ''{"data":[{"file":"b.js","results":[{"vulnerabilities":[{"severity":"High"},{"severity":"MEDIUM"},{"severity":"critical"}]}]}]}''\<close>

definition vulnerabilityOf :: "string \<Rightarrow> RetirejsVulnerability" where
  "vulnerabilityOf severity =
     \<lparr>Info = [], Below = [], Severity = severity,
      RetirejsIdentifiers = \<lparr>IssueFound = [], Summary = [], CVE = []\<rparr>\<rparr>"

definition outOtherSeverities :: RetirejsOutput where
  "outOtherSeverities =
     \<lparr>RetirejsIssues =
        [\<lparr>File = ''b.js'',
          RetirejsResults =
            [\<lparr>Version = [], Component = [], Detection = [],
              RetirejsVulnerabilities =
                [vulnerabilityOf ''High'', vulnerabilityOf ''MEDIUM'',
                 vulnerabilityOf ''critical'']\<rparr>]\<rparr>],
      Messages = [], Errors = []\<rparr>"

definition rawNoIssues :: string where
  \<open>rawNoIssues = ''{"data":[]}''\<close>

definition rawNoIssuesWithMarker :: string where
  \<open>rawNoIssuesWithMarker = ''{"data":[],"messages":["ERROR_CLONING"]}''\<close>

text \<open>
  \<open>json.Unmarshal\<close> into a \<open>RetirejsOutput\<close> on the four documents above; a
  \<open>json.RawMessage\<close> field keeps the bytes of its value. Any other input is answered
  with an error here.
\<close>

definition sampleUnmarshal :: "string \<Rightarrow> error + RetirejsOutput" where
  \<open>sampleUnmarshal raw =
     (if raw = rawHighFinding then Inr outHighFinding
      else if raw = rawOtherSeverities then Inr outOtherSeverities
      else if raw = rawNoIssues then Inr \<lparr>RetirejsIssues = [], Messages = [], Errors = []\<rparr>
      else if raw = rawNoIssuesWithMarker
      then Inr \<lparr>RetirejsIssues = [], Messages = ''["ERROR_CLONING"]'', Errors = []\<rparr>
      else Inl ''invalid character'')\<close>

definition sampleAnalysisEnv :: analysis_env where
  "sampleAnalysisEnv =
     \<lparr>json_Unmarshal = sampleUnmarshal,
      UpdateOneDBAnalysisContainer = (\<lambda>CID doc. None),
      Logger_SendLog = (\<lambda>level msgs. None)\<rparr>"

subsection \<open>A container and a runtime that answers every call with success\<close>

definition sampleContainer :: Container where
  "sampleContainer =
     \<lparr>dockerClient = False, CID = [], Status = [],
      Command = ''scan.sh %GIT_REPO% %GIT_BRANCH%'', Output = [],
      Image = \<lparr>CanonicalURL = ''docker.io/huskyci/retirejs'', Name = ''huskyci/retirejs'',
               Tag = ''latest''\<rparr>,
      StartedAt = 0, FinishedAt = 0\<rparr>"

text \<open>The clock of the sample runtime counts the calls made so far.\<close>

definition sampleRuntime :: runtime where
  "sampleRuntime =
     \<lparr>Setenv_err = (\<lambda>key val. None),
      NewEnvClient_err = (\<lambda>environ. None),
      ImageList_res = (\<lambda>tr reference. Inr 1),
      ImagePull_err = (\<lambda>tr ref. None),
      ticks_before_timeout = 60,
      ContainerCreate_res = (\<lambda>tr image Cmd. Inr ''c0ffee''),
      ContainerStart_err = (\<lambda>tr CID. None),
      ContainerWait_res = (\<lambda>tr CID. (0, None)),
      ContainerLogs_res = (\<lambda>tr CID. Inr (Inr rawNoIssues)),
      ContainerRemove_err = (\<lambda>tr CID. None),
      time_Now = (\<lambda>tr. 1000 + int (length tr))\<rparr>"

definition sampleWorld :: world where
  "sampleWorld =
     \<lparr>environ = [''HUSKYCI_DOCKERAPI_ADDR'' \<mapsto> ''docker.local'',
                 ''HUSKYCI_API_GIT_PRIVATE_SSH_KEY'' \<mapsto> ''SECRET''],
      trace = []\<rparr>"

definition startFails :: runtime where
  "startFails = sampleRuntime\<lparr>ContainerStart_err := (\<lambda>tr CID. Some ''cannot start'')\<rparr>"

definition waitFails :: runtime where
  "waitFails = sampleRuntime\<lparr>ContainerWait_res := (\<lambda>tr CID. (- 1, Some ''connection lost''))\<rparr>"

definition readFails :: runtime where
  "readFails = sampleRuntime\<lparr>ContainerLogs_res := (\<lambda>tr CID. Inl ''no such container'')\<rparr>"

definition removeFails :: runtime where
  "removeFails = sampleRuntime\<lparr>ContainerRemove_err := (\<lambda>tr CID. Some ''removal in progress'')\<rparr>"

text \<open>The image never shows up in the list of images, and every pull succeeds.\<close>

definition imageAbsent :: runtime where
  "imageAbsent = sampleRuntime\<lparr>ImageList_res := (\<lambda>tr reference. Inr 0)\<rparr>"

definition imageAbsentTwoTicks :: runtime where
  "imageAbsentTwoTicks = imageAbsent\<lparr>ticks_before_timeout := 2\<rparr>"

text \<open>The sample container once \<open>NewDockerClient\<close> has set its client.\<close>

definition connectedContainer :: Container where
  "connectedContainer = sampleContainer\<lparr>dockerClient := True\<rparr>"

section \<open>Reading a trace\<close>

text \<open>The containers whose removal was requested, in the order of the requests.\<close>

fun removalAttempts :: "event list \<Rightarrow> string list" where
  "removalAttempts [] = []"
| "removalAttempts (ContainerRemove cid # es) = cid # removalAttempts es"
| "removalAttempts (e # es) = removalAttempts es"

text \<open>
  The presence checks (\<open>ImageList\<close> requests) made before the first tick is received
  from \<open>retryTick.C\<close>, that is, before the first retry interval has elapsed.
\<close>

fun pollsBeforeFirstTick :: "event list \<Rightarrow> nat" where
  "pollsBeforeFirstTick [] = 0"
| "pollsBeforeFirstTick (retryTick_received # es) = 0"
| "pollsBeforeFirstTick (ImageList reference # es) = Suc (pollsBeforeFirstTick es)"
| "pollsBeforeFirstTick (e # es) = pollsBeforeFirstTick es"

text \<open>All presence checks of a trace.\<close>

fun polls :: "event list \<Rightarrow> nat" where
  "polls [] = 0"
| "polls (ImageList reference # es) = Suc (polls es)"
| "polls (e # es) = polls es"

text \<open>What a call returned, if it returned.\<close>

fun returned :: "'a outcome \<Rightarrow> 'a option" where
  "returned (Returns r) = Some r"
| "returned (Panics w) = None"

text \<open>
  One turn of the worker on an absent image: the tick, its log line, the presence check and
  the pull. \<open>absentImageTrace\<close> is what the worker adds to the trace when every turn is
  such a turn: the timer and the ticker, one turn for each tick taken, then the timeout and
  its log line.
\<close>

definition pollRound :: "Container \<Rightarrow> event list" where
  "pollRound c =
     [retryTick_received,
      log_Info ''pullImageWorker'' ''HUSKYDOCKER'' 31 [S (Name (Image c))],
      ImageList (fullImageName c),
      ImagePull (CanonicalURL (Image c))]"

definition absentImageTrace :: "runtime \<Rightarrow> Container \<Rightarrow> event list" where
  "absentImageTrace rt c =
     [time_After (15 * time_Minute), time_NewTicker (15 * time_Second)]
       @ concat (replicate (ticks_before_timeout rt) (pollRound c))
       @ [timeout_received,
          log_Error ''pullImageWorker'' ''HUSKYDOCKER'' 3013 [E (Some ''timeout'')]]"

section \<open>Properties of the library functions\<close>

lemma strings_Contains_self: "strings_Contains s s"
  by (cases s) simp_all

lemma strings_Contains_append: "strings_Contains (p @ s) s"
  by (induction p) (simp_all add: strings_Contains_self)

lemma strings_Contains_sublist: "strings_Contains s substr \<longleftrightarrow> sublist substr s"
  by (induction s) (auto simp: sublist_Cons_right)

lemma strings_Replace_absent:
  "\<not> strings_Contains s old \<Longrightarrow> strings_Replace s old new = s"
  by (induction s) auto

lemma strings_Replace_Nil: "old \<noteq> [] \<Longrightarrow> strings_Replace [] old new = []"
  by simp

section \<open>Properties of the evaluator\<close>

text \<open>
  The three loops amount to one question: is there a vulnerability, anywhere in the decoded
  output, whose severity is \<open>medium\<close> or \<open>high\<close>. The \<open>break\<close> does not change
  the answer, since \<open>cResult\<close> is never set back to \<open>passed\<close>.
\<close>

lemma scanVulnerabilities_eq:
  "scanVulnerabilities cResult vs =
     (if \<exists>v \<in> set vs. Severity v = ''medium'' \<or> Severity v = ''high'' then ''failed'' else cResult)"
  by (induction vs) auto

lemma scanResults_eq:
  "scanResults cResult rs =
     (if \<exists>v \<in> set (concat (map RetirejsVulnerabilities rs)). Severity v = ''medium'' \<or> Severity v = ''high''
      then ''failed'' else cResult)"
  by (induction rs arbitrary: cResult) (auto simp: scanVulnerabilities_eq)

lemma scanIssues_eq:
  "scanIssues cResult issues =
     (if \<exists>v \<in> set (allVulnerabilities issues). Severity v = ''medium'' \<or> Severity v = ''high''
      then ''failed'' else cResult)"
  unfolding allVulnerabilities_def
  by (induction issues arbitrary: cResult) (auto simp: scanResults_eq)

lemma persisted_sendLogError: "persisted (sendLogError env msgs) = []"
  by (simp add: sendLogError_def split: option.split)

lemma parseAttempts_sendLogError: "parseAttempts (sendLogError env msgs) = []"
  by (simp add: sendLogError_def split: option.split)

lemma persisted_updateAndReport: "persisted (updateAndReport env cid doc) = [(cid, doc)]"
  by (simp add: updateAndReport_def persisted_sendLogError split: option.split)

lemma parseAttempts_updateAndReport: "parseAttempts (updateAndReport env cid doc) = []"
  by (simp add: updateAndReport_def parseAttempts_sendLogError split: option.split)

text \<open>
  C1. When the evaluator has decoded the raw output (it holds no clone-failure marker and
  \<open>json.Unmarshal\<close> returns the output \<open>out\<close>) and \<open>out\<close> has at least one issue,
  exactly one update is handed to the persistence gateway; it sets \<open>cResult\<close> only, to
  \<open>failed\<close> if some vulnerability of \<open>out\<close> has severity \<open>medium\<close> or
  \<open>high\<close>, and to \<open>passed\<close> otherwise (so also when all are \<open>low\<close> or there is no
  vulnerability at all). This holds for every severity string, not only the three named ones.
\<close>

theorem verdict_failed_iff_medium_or_high:
  assumes "\<not> strings_Contains cOutput ''ERROR_CLONING''"
    and "json_Unmarshal env cOutput = Inr out"
    and "RetirejsIssues out \<noteq> []"
  shows "persisted (RetirejsStartAnalysis env cid cOutput) =
           [(cid, [''containers.$.cResult'' \<mapsto>
              (if \<exists>v \<in> set (allVulnerabilities (RetirejsIssues out)).
                    Severity v = ''medium'' \<or> Severity v = ''high''
               then ''failed'' else ''passed'')])]"
  using assms
  by (simp add: RetirejsStartAnalysis_def persisted_updateAndReport scanIssues_eq)

theorem verdict_failed_iff_medium_or_high_witness:
  "\<not> strings_Contains rawHighFinding ''ERROR_CLONING'' \<and>
   json_Unmarshal sampleAnalysisEnv rawHighFinding = Inr outHighFinding \<and>
   RetirejsIssues outHighFinding \<noteq> [] \<and>
   persisted (RetirejsStartAnalysis sampleAnalysisEnv ''c0ffee'' rawHighFinding) =
     [(''c0ffee'', [''containers.$.cResult'' \<mapsto> ''failed''])]"
proof -
  have a: "\<not> strings_Contains rawHighFinding ''ERROR_CLONING''"
    by (simp add: rawHighFinding_def)
  have b: "json_Unmarshal sampleAnalysisEnv rawHighFinding = Inr outHighFinding"
    by (simp add: sampleAnalysisEnv_def sampleUnmarshal_def)
  have c: "RetirejsIssues outHighFinding \<noteq> []"
    by (simp add: outHighFinding_def)
  have d: "\<exists>v \<in> set (allVulnerabilities (RetirejsIssues outHighFinding)).
             Severity v = ''medium'' \<or> Severity v = ''high''"
    by (simp add: outHighFinding_def allVulnerabilities_def)
  show ?thesis
    using verdict_failed_iff_medium_or_high [OF a b c, of "''c0ffee''"] a b c d by simp
qed

text \<open>
  C10. The comparison of step 2 is equality of strings with \<open>high\<close> and \<open>medium\<close>: when
  no vulnerability of the decoded output carries exactly one of these two strings, whatever
  else the severities are, the verdict handed to the gateway is \<open>passed\<close>. The example
  after it has the severities \<open>High\<close>, \<open>MEDIUM\<close> and \<open>critical\<close>.
\<close>

theorem other_severities_pass:
  assumes "\<not> strings_Contains cOutput ''ERROR_CLONING''"
    and "json_Unmarshal env cOutput = Inr out"
    and "RetirejsIssues out \<noteq> []"
    and "\<forall>v \<in> set (allVulnerabilities (RetirejsIssues out)).
           Severity v \<noteq> ''high'' \<and> Severity v \<noteq> ''medium''"
  shows "persisted (RetirejsStartAnalysis env cid cOutput) =
           [(cid, [''containers.$.cResult'' \<mapsto> ''passed''])]"
proof -
  have "scanIssues ''passed'' (RetirejsIssues out) = ''passed''"
    using assms(4) by (auto simp: scanIssues_eq)
  then show ?thesis
    using assms(1-3) by (simp add: RetirejsStartAnalysis_def persisted_updateAndReport)
qed

theorem other_severities_pass_witness:
  "\<not> strings_Contains rawOtherSeverities ''ERROR_CLONING'' \<and>
   json_Unmarshal sampleAnalysisEnv rawOtherSeverities = Inr outOtherSeverities \<and>
   map Severity (allVulnerabilities (RetirejsIssues outOtherSeverities)) =
     [''High'', ''MEDIUM'', ''critical''] \<and>
   persisted (RetirejsStartAnalysis sampleAnalysisEnv ''c0ffee'' rawOtherSeverities) =
     [(''c0ffee'', [''containers.$.cResult'' \<mapsto> ''passed''])]"
proof -
  have a: "\<not> strings_Contains rawOtherSeverities ''ERROR_CLONING''"
    by (simp add: rawOtherSeverities_def)
  have b: "json_Unmarshal sampleAnalysisEnv rawOtherSeverities = Inr outOtherSeverities"
    by (simp add: sampleAnalysisEnv_def sampleUnmarshal_def rawOtherSeverities_def rawHighFinding_def)
  have c: "RetirejsIssues outOtherSeverities \<noteq> []"
    by (simp add: outOtherSeverities_def)
  have s: "map Severity (allVulnerabilities (RetirejsIssues outOtherSeverities)) =
     [''High'', ''MEDIUM'', ''critical'']"
    by (simp add: outOtherSeverities_def allVulnerabilities_def vulnerabilityOf_def)
  have d: "\<forall>v \<in> set (allVulnerabilities (RetirejsIssues outOtherSeverities)).
             Severity v \<noteq> ''high'' \<and> Severity v \<noteq> ''medium''"
    by (simp add: outOtherSeverities_def allVulnerabilities_def vulnerabilityOf_def)
  show ?thesis
    using other_severities_pass [OF a b c d, of "''c0ffee''"] a b s by simp
qed

text \<open>
  C3. A raw output that contains \<open>ERROR_CLONING\<close> leads to exactly one update, which sets
  \<open>cResult\<close> to \<open>failed\<close> and \<open>cOutput\<close> to \<open>Container error: \<close> followed by
  the raw output (a message that contains the raw output), and \<open>json.Unmarshal\<close> is never
  called, whatever the decoder, the gateway and the log sink answer.
\<close>

theorem clone_failure_short_circuit:
  assumes "strings_Contains cOutput ''ERROR_CLONING''"
  shows "persisted (RetirejsStartAnalysis env cid cOutput) =
           [(cid, [''containers.$.cOutput'' \<mapsto> ''Container error: '' @ cOutput,
                   ''containers.$.cResult'' \<mapsto> ''failed''])] \<and>
         strings_Contains (''Container error: '' @ cOutput) cOutput \<and>
         parseAttempts (RetirejsStartAnalysis env cid cOutput) = []"
  using assms strings_Contains_append [of "''Container error: ''" cOutput]
  by (simp add: RetirejsStartAnalysis_def persisted_updateAndReport
      parseAttempts_updateAndReport del: strings_Contains.simps)

theorem clone_failure_short_circuit_witness:
  "strings_Contains ''ERROR_CLONING: timeout'' ''ERROR_CLONING'' \<and>
   persisted (RetirejsStartAnalysis sampleAnalysisEnv ''c0ffee'' ''ERROR_CLONING: timeout'') =
     [(''c0ffee'', [''containers.$.cOutput'' \<mapsto> ''Container error: ERROR_CLONING: timeout'',
                    ''containers.$.cResult'' \<mapsto> ''failed''])] \<and>
   parseAttempts (RetirejsStartAnalysis sampleAnalysisEnv ''c0ffee'' ''ERROR_CLONING: timeout'') = []"
proof -
  have a: "strings_Contains ''ERROR_CLONING: timeout'' ''ERROR_CLONING''"
    by simp
  show ?thesis
    using clone_failure_short_circuit [OF a, of sampleAnalysisEnv "''c0ffee''"] a by simp
qed

text \<open>
  C4, as stated, fails. The document \<open>{"data":[],"messages":["ERROR_CLONING"]}\<close> decodes
  into an output without issues, yet the evaluator never decodes it: step 0.1 finds the marker
  first, and the update sets \<open>cResult\<close> to \<open>failed\<close> and \<open>cOutput\<close> to the error
  message, not to \<open>No issues found.\<close>
\<close>

theorem no_issues_claim_fails_with_marker:
  \<open>json_Unmarshal sampleAnalysisEnv rawNoIssuesWithMarker =
      Inr \<lparr>RetirejsIssues = [], Messages = ''["ERROR_CLONING"]'', Errors = []\<rparr> \<and>
   persisted (RetirejsStartAnalysis sampleAnalysisEnv ''c0ffee'' rawNoIssuesWithMarker) =
     [(''c0ffee'', [''containers.$.cOutput'' \<mapsto> ''Container error: '' @ rawNoIssuesWithMarker,
                    ''containers.$.cResult'' \<mapsto> ''failed''])] \<and>
   persisted (RetirejsStartAnalysis sampleAnalysisEnv ''c0ffee'' rawNoIssuesWithMarker) \<noteq>
     [(''c0ffee'', [''containers.$.cOutput'' \<mapsto> ''No issues found.''])]\<close>
proof -
  have m: "strings_Contains rawNoIssuesWithMarker ''ERROR_CLONING''"
    by (simp add: rawNoIssuesWithMarker_def)
  have p: "persisted (RetirejsStartAnalysis sampleAnalysisEnv ''c0ffee'' rawNoIssuesWithMarker) =
     [(''c0ffee'', [''containers.$.cOutput'' \<mapsto> ''Container error: '' @ rawNoIssuesWithMarker,
                    ''containers.$.cResult'' \<mapsto> ''failed''])]"
    using m by (simp add: RetirejsStartAnalysis_def persisted_updateAndReport)
  have u: \<open>json_Unmarshal sampleAnalysisEnv rawNoIssuesWithMarker =
      Inr \<lparr>RetirejsIssues = [], Messages = ''["ERROR_CLONING"]'', Errors = []\<rparr>\<close>
    by (simp add: sampleAnalysisEnv_def sampleUnmarshal_def rawNoIssuesWithMarker_def
        rawHighFinding_def rawOtherSeverities_def rawNoIssues_def)
  have "[''containers.$.cOutput'' \<mapsto> ''Container error: '' @ rawNoIssuesWithMarker,
         ''containers.$.cResult'' \<mapsto> ''failed''] ''containers.$.cResult''
        \<noteq> [''containers.$.cOutput'' \<mapsto> ''No issues found.''] ''containers.$.cResult''"
    by simp
  then have n: "[''containers.$.cOutput'' \<mapsto> ''Container error: '' @ rawNoIssuesWithMarker,
         ''containers.$.cResult'' \<mapsto> ''failed'']
        \<noteq> [''containers.$.cOutput'' \<mapsto> ''No issues found.'']"
    by metis
  show ?thesis using u p n by simp
qed

text \<open>
  C4, amended. A raw output without the clone-failure marker that decodes into an output
  whose issue list is empty leads to exactly one update, which sets \<open>cOutput\<close> to
  \<open>No issues found.\<close> and no other field: \<open>cResult\<close> is not in the document.
\<close>

theorem no_issues_fast_path:
  assumes "\<not> strings_Contains cOutput ''ERROR_CLONING''"
    and "json_Unmarshal env cOutput = Inr out"
    and "RetirejsIssues out = []"
  shows "persisted (RetirejsStartAnalysis env cid cOutput) =
           [(cid, [''containers.$.cOutput'' \<mapsto> ''No issues found.''])] \<and>
         [''containers.$.cOutput'' \<mapsto> ''No issues found.''] ''containers.$.cResult'' = None"
  using assms
  by (simp add: RetirejsStartAnalysis_def persisted_updateAndReport)

theorem no_issues_fast_path_witness:
  "\<not> strings_Contains rawNoIssues ''ERROR_CLONING'' \<and>
   json_Unmarshal sampleAnalysisEnv rawNoIssues =
     Inr \<lparr>RetirejsIssues = [], Messages = [], Errors = []\<rparr> \<and>
   persisted (RetirejsStartAnalysis sampleAnalysisEnv ''c0ffee'' rawNoIssues) =
     [(''c0ffee'', [''containers.$.cOutput'' \<mapsto> ''No issues found.''])]"
proof -
  have a: "\<not> strings_Contains rawNoIssues ''ERROR_CLONING''"
    by (simp add: rawNoIssues_def)
  have b: "json_Unmarshal sampleAnalysisEnv rawNoIssues =
     Inr \<lparr>RetirejsIssues = [], Messages = [], Errors = []\<rparr>"
    by (simp add: sampleAnalysisEnv_def sampleUnmarshal_def rawNoIssues_def
        rawHighFinding_def rawOtherSeverities_def)
  show ?thesis
    using no_issues_fast_path [OF a b, of "''c0ffee''"] a b by simp
qed

section \<open>Properties of the command templates\<close>

text \<open>
  Up to its first occurrence the text is copied, the occurrence is replaced, and the
  replacement goes on behind it; together with \<open>strings_Replace_absent\<close> this fixes
  \<open>strings_Replace\<close> for a non-empty \<open>old\<close>.
\<close>

lemma strings_Replace_first_occurrence:
  assumes "old \<noteq> []"
    and "\<forall>i < length p. \<not> prefix old (drop i (p @ old @ rest))"
  shows "strings_Replace (p @ old @ rest) old new = p @ new @ strings_Replace rest old new"
  using assms
proof (induction p)
  case Nil
  then obtain a t where "old = a # t" by (cases old) auto
  then show ?case by simp
next
  case (Cons c p)
  have "\<not> prefix old (c # p @ old @ rest)"
    using Cons.prems(2) by force
  moreover have "\<forall>i < length p. \<not> prefix old (drop i (p @ old @ rest))"
    using Cons.prems(2) by force
  ultimately show ?case
    using Cons.IH Cons.prems(1) by simp
qed

text \<open>
  C5, as stated, fails. \<open>HandleCmd\<close> replaces \<open>%GIT_BRANCH%\<close> in the result of the
  first replacement, not in the template: a repository URL that holds \<open>%GIT_BRANCH%\<close> has
  that part replaced by the branch as well, so the occurrence of \<open>%GIT_REPO%\<close> does not
  become the repository URL.
\<close>

theorem HandleCmd_replaces_twice:
  \<open>HandleCmd ''git@x/%GIT_BRANCH%'' ''main'' ''scan.sh %GIT_REPO% %GIT_BRANCH%'' =
      ''scan.sh git@x/main main'' \<and>
   HandleCmd_spec ''git@x/%GIT_BRANCH%'' ''main'' ''scan.sh %GIT_REPO% %GIT_BRANCH%'' =
      ''scan.sh git@x/%GIT_BRANCH% main''\<close>
  by (simp add: HandleCmd_def HandleCmd_spec_def)

text \<open>
  C5, amended. \<open>HandleCmd\<close> returns the empty string if the repository URL, the branch or
  the template is empty. Otherwise it returns the template with every occurrence of
  \<open>%GIT_REPO%\<close> replaced by the repository URL and then every occurrence of
  \<open>%GIT_BRANCH%\<close> in that intermediate string replaced by the branch. A template
  without the two tokens is returned unchanged, and the template
  \<open>scan.sh %GIT_REPO% %GIT_BRANCH%\<close> with repository \<open>git@x/y\<close> and branch
  \<open>main\<close> gives \<open>scan.sh git@x/y main\<close>.
\<close>

theorem HandleCmd_sequential:
  "(repositoryURL = [] \<or> repositoryBranch = [] \<or> cmd = [] \<longrightarrow>
      HandleCmd repositoryURL repositoryBranch cmd = []) \<and>
   (repositoryURL \<noteq> [] \<and> repositoryBranch \<noteq> [] \<and> cmd \<noteq> [] \<longrightarrow>
      HandleCmd repositoryURL repositoryBranch cmd =
        strings_Replace (strings_Replace cmd ''%GIT_REPO%'' repositoryURL)
          ''%GIT_BRANCH%'' repositoryBranch) \<and>
   (repositoryURL \<noteq> [] \<and> repositoryBranch \<noteq> [] \<and>
    \<not> strings_Contains cmd ''%GIT_REPO%'' \<and> \<not> strings_Contains cmd ''%GIT_BRANCH%'' \<longrightarrow>
      HandleCmd repositoryURL repositoryBranch cmd = cmd) \<and>
   HandleCmd ''git@x/y'' ''main'' ''scan.sh %GIT_REPO% %GIT_BRANCH%'' = ''scan.sh git@x/y main''"
proof -
  have e: "repositoryURL = [] \<or> repositoryBranch = [] \<or> cmd = [] \<longrightarrow>
      HandleCmd repositoryURL repositoryBranch cmd = []"
    by (auto simp: HandleCmd_def)
  have r: "repositoryURL \<noteq> [] \<and> repositoryBranch \<noteq> [] \<and> cmd \<noteq> [] \<longrightarrow>
      HandleCmd repositoryURL repositoryBranch cmd =
        strings_Replace (strings_Replace cmd ''%GIT_REPO%'' repositoryURL)
          ''%GIT_BRANCH%'' repositoryBranch"
    by (simp add: HandleCmd_def)
  have u: "repositoryURL \<noteq> [] \<and> repositoryBranch \<noteq> [] \<and>
    \<not> strings_Contains cmd ''%GIT_REPO%'' \<and> \<not> strings_Contains cmd ''%GIT_BRANCH%'' \<longrightarrow>
      HandleCmd repositoryURL repositoryBranch cmd = cmd"
    by (simp add: HandleCmd_def strings_Replace_absent del: strings_Replace.simps)
  have x: "HandleCmd ''git@x/y'' ''main'' ''scan.sh %GIT_REPO% %GIT_BRANCH%'' = ''scan.sh git@x/y main''"
    by (simp add: HandleCmd_def)
  show ?thesis using e r u x by blast
qed

theorem HandleCmd_sequential_witness:
  "HandleCmd [] ''main'' ''scan.sh %GIT_REPO% %GIT_BRANCH%'' = [] \<and>
   HandleCmd ''git@x/y'' [] ''scan.sh %GIT_REPO% %GIT_BRANCH%'' = [] \<and>
   HandleCmd ''git@x/y'' ''main'' [] = [] \<and>
   HandleCmd ''git@x/y'' ''main'' ''%GIT_REPO%#%GIT_BRANCH%#%GIT_REPO%'' = ''git@x/y#main#git@x/y'' \<and>
   \<not> strings_Contains ''retire --outputformat json'' ''%GIT_REPO%'' \<and>
   \<not> strings_Contains ''retire --outputformat json'' ''%GIT_BRANCH%'' \<and>
   HandleCmd ''git@x/y'' ''main'' ''retire --outputformat json'' = ''retire --outputformat json''"
proof -
  have a: "HandleCmd [] ''main'' ''scan.sh %GIT_REPO% %GIT_BRANCH%'' = []"
    using HandleCmd_sequential [of "[]" "''main''" "''scan.sh %GIT_REPO% %GIT_BRANCH%''"]
    by blast
  have b: "HandleCmd ''git@x/y'' [] ''scan.sh %GIT_REPO% %GIT_BRANCH%'' = []"
    using HandleCmd_sequential [of "''git@x/y''" "[]" "''scan.sh %GIT_REPO% %GIT_BRANCH%''"]
    by blast
  have c: "HandleCmd ''git@x/y'' ''main'' [] = []"
    using HandleCmd_sequential [of "''git@x/y''" "''main''" "[]"]
    by blast
  have "HandleCmd ''git@x/y'' ''main'' ''%GIT_REPO%#%GIT_BRANCH%#%GIT_REPO%'' =
          strings_Replace (strings_Replace ''%GIT_REPO%#%GIT_BRANCH%#%GIT_REPO%'' ''%GIT_REPO%''
            ''git@x/y'') ''%GIT_BRANCH%'' ''main''"
    using HandleCmd_sequential [of "''git@x/y''" "''main''" "''%GIT_REPO%#%GIT_BRANCH%#%GIT_REPO%''"]
    by blast
  then have d: "HandleCmd ''git@x/y'' ''main'' ''%GIT_REPO%#%GIT_BRANCH%#%GIT_REPO%'' =
          ''git@x/y#main#git@x/y''"
    by simp
  have n: "\<not> strings_Contains ''retire --outputformat json'' ''%GIT_REPO%'' \<and>
      \<not> strings_Contains ''retire --outputformat json'' ''%GIT_BRANCH%''"
    by simp
  have u: "HandleCmd ''git@x/y'' ''main'' ''retire --outputformat json'' = ''retire --outputformat json''"
    using HandleCmd_sequential [of "''git@x/y''" "''main''" "''retire --outputformat json''"] n
    by blast
  show ?thesis using a b c d n u by blast
qed

text \<open>
  C6. The claim is that the whole token \<open>%GIT_PRIVATE_SSH_KEY%\<close> is replaced by the
  secret. \<open>HandlePrivateSSHKey\<close> searches for \<open>GIT_PRIVATE_SSH_KEY\<close> without the
  percent signs, so both percent signs stay around the secret, and around nothing when the
  variable is unset.
\<close>

theorem HandlePrivateSSHKey_leaves_percent_signs:
  "HandlePrivateSSHKey [''HUSKYCI_API_GIT_PRIVATE_SSH_KEY'' \<mapsto> ''SECRET'']
      ''echo %GIT_PRIVATE_SSH_KEY% > id_rsa'' = ''echo %SECRET% > id_rsa'' \<and>
   HandlePrivateSSHKey Map.empty ''echo %GIT_PRIVATE_SSH_KEY% > id_rsa'' = ''echo %% > id_rsa''"
  by (simp add: HandlePrivateSSHKey_def os_Getenv_def)

section \<open>Properties of the lifecycle\<close>

lemma HandlePrivateSSHKey_Nil: "HandlePrivateSSHKey vars [] = []"
  by (simp add: HandlePrivateSSHKey_def)

lemmas run_defs = Run_def Run_step3_def NewDockerClient_def setDockerClientEnvs_def
  os_Setenv_def os_Getenv_def ImageIsLoaded_def Create_def Start_def Wait_def ReadOutput_def
  Remove_def emit_def fullImageName_def HandleCmd_def HandlePrivateSSHKey_def
  sampleRuntime_def sampleContainer_def sampleWorld_def

text \<open>
  \<open>NewDockerClient\<close> changes nothing of the container but the client. Called on a
  container without a client, \<open>Create\<close> panics; with one, it hands the resolved command
  to the runtime, and once it has returned a container \<open>Run\<close> goes on to start it.
\<close>

lemma Create_without_client_panics:
  "\<not> dockerClient c \<Longrightarrow> Create rt repositoryURL branch c w = Panics w"
  by (simp add: Create_def Let_def)

lemma NewDockerClient_sets_client:
  "NewDockerClient rt c w = (None, c1, w1) \<Longrightarrow> c1 = c\<lparr>dockerClient := True\<rparr>"
  by (auto simp: NewDockerClient_def split: prod.splits option.splits)

lemma Create_with_client:
  assumes "dockerClient c"
  shows "Create rt repositoryURL branch c w =
     (let Cmd = [''/bin/sh'', ''-c'',
                 HandlePrivateSSHKey (environ w) (HandleCmd repositoryURL branch (Command c))]
      in case ContainerCreate_res rt (trace w) (fullImageName c) Cmd of
        Inl err \<Rightarrow> Returns (Some err, c, emit (ContainerCreate (fullImageName c) True Cmd) w)
      | Inr ID \<Rightarrow>
          Returns (None, c\<lparr>CID := ID\<rparr>, emit (ContainerCreate (fullImageName c) True Cmd) w))"
  using assms by (simp add: Create_def Let_def)

lemma Run_step3_after_Create:
  assumes "Create rt u b c w = Returns (None, c1, w1)" and "dockerClient c1"
  shows "\<exists>r c' w' rest. Run_step3 rt u b c w = Returns (r, c', w') \<and>
           trace w' = trace w1 @ [ContainerStart (CID c1)] @ rest"
  using assms
  by (auto simp: Run_step3_def Start_def Wait_def ReadOutput_def Remove_def emit_def Let_def
      split: prod.splits option.splits sum.splits)

text \<open>
  C7, as stated, fails. With an empty repository URL the resolved command is empty, and
  \<open>Run\<close> creates, starts, awaits, reads and removes the container all the same and
  returns no error.
\<close>

theorem Run_with_empty_repository:
  "HandleCmd [] ''main'' (Command sampleContainer) = [] \<and>
   map_option fst (returned (Run sampleRuntime [] ''main'' sampleContainer sampleWorld)) = Some None \<and>
   map_option (trace \<circ> snd \<circ> snd)
       (returned (Run sampleRuntime [] ''main'' sampleContainer sampleWorld)) =
     Some [ImageList ''huskyci/retirejs:latest'',
      ContainerCreate ''huskyci/retirejs:latest'' True [''/bin/sh'', ''-c'', []],
      ContainerStart ''c0ffee'',
      log_Info ''RUN'' ''CONTAINER'' 32 [S ''huskyci/retirejs'', S ''latest''],
      ContainerWait ''c0ffee'',
      ContainerLogs ''c0ffee'' True False,
      log_Info ''RUN'' ''CONTAINER'' 34 [S ''huskyci/retirejs'', S ''latest''],
      ContainerRemove ''c0ffee'']"
  by (simp add: run_defs)

text \<open>
  C7, amended. When the repository URL, the branch or the template is empty, \<open>Create\<close>
  (called, as in \<open>Run\<close>, on a container whose client is set) makes no check of the
  resolved command: it asks the runtime for a container whose command is \<open>/bin/sh -c\<close>
  with the empty string, and it fails exactly when that request fails. When the request
  succeeds in a \<open>Run\<close> that got as far as step 3 (the client was set up and the image is
  there, at once or after the pull worker), \<open>Run\<close> goes on to start the container it
  was given.
\<close>

theorem empty_command_is_created_and_started:
  assumes "repositoryURL = [] \<or> branch = [] \<or> Command c = []"
  shows
   "(dockerClient c \<longrightarrow>
       Create rt repositoryURL branch c w =
         (case ContainerCreate_res rt (trace w) (fullImageName c) [''/bin/sh'', ''-c'', []] of
            Inl err \<Rightarrow>
              Returns (Some err, c,
                emit (ContainerCreate (fullImageName c) True [''/bin/sh'', ''-c'', []]) w)
          | Inr ID \<Rightarrow>
              Returns (None, c\<lparr>CID := ID\<rparr>,
                emit (ContainerCreate (fullImageName c) True [''/bin/sh'', ''-c'', []]) w))) \<and>
    (NewDockerClient rt c w = (None, c1, w1) \<and>
     (ImageIsLoaded rt c1 w1 = Returns (Inr True, w2) \<or>
      (\<exists>wl. ImageIsLoaded rt c1 w1 = Returns (Inr False, wl) \<and>
            PullImageWorker rt c1 wl = Returns (None, w2))) \<and>
     ContainerCreate_res rt (trace w2) (fullImageName c) [''/bin/sh'', ''-c'', []] = Inr ID \<longrightarrow>
       (\<exists>r c' w' rest.
          Run rt repositoryURL branch c w = Returns (r, c', w') \<and>
          trace w' =
            trace w2 @
            [ContainerCreate (fullImageName c) True [''/bin/sh'', ''-c'', []], ContainerStart ID]
            @ rest))"
proof -
  have h: "\<And>d. Command d = Command c \<Longrightarrow> HandleCmd repositoryURL branch (Command d) = []"
    using assms by (auto simp: HandleCmd_def)
  have create: "\<And>d v. dockerClient d \<Longrightarrow> Command d = Command c \<Longrightarrow>
       Create rt repositoryURL branch d v =
         (case ContainerCreate_res rt (trace v) (fullImageName d) [''/bin/sh'', ''-c'', []] of
            Inl err \<Rightarrow>
              Returns (Some err, d,
                emit (ContainerCreate (fullImageName d) True [''/bin/sh'', ''-c'', []]) v)
          | Inr ID \<Rightarrow>
              Returns (None, d\<lparr>CID := ID\<rparr>,
                emit (ContainerCreate (fullImageName d) True [''/bin/sh'', ''-c'', []]) v))"
    by (simp add: Create_with_client h HandlePrivateSSHKey_Nil Let_def)
  have first: "dockerClient c \<longrightarrow>
       Create rt repositoryURL branch c w =
         (case ContainerCreate_res rt (trace w) (fullImageName c) [''/bin/sh'', ''-c'', []] of
            Inl err \<Rightarrow>
              Returns (Some err, c,
                emit (ContainerCreate (fullImageName c) True [''/bin/sh'', ''-c'', []]) w)
          | Inr ID \<Rightarrow>
              Returns (None, c\<lparr>CID := ID\<rparr>,
                emit (ContainerCreate (fullImageName c) True [''/bin/sh'', ''-c'', []]) w))"
    using create [of c w] by simp
  have second: "\<exists>r c' w' rest.
          Run rt repositoryURL branch c w = Returns (r, c', w') \<and>
          trace w' =
            trace w2 @
            [ContainerCreate (fullImageName c) True [''/bin/sh'', ''-c'', []], ContainerStart ID]
            @ rest"
    if n: "NewDockerClient rt c w = (None, c1, w1)"
      and l: "ImageIsLoaded rt c1 w1 = Returns (Inr True, w2) \<or>
              (\<exists>wl. ImageIsLoaded rt c1 w1 = Returns (Inr False, wl) \<and>
                    PullImageWorker rt c1 wl = Returns (None, w2))"
      and a: "ContainerCreate_res rt (trace w2) (fullImageName c) [''/bin/sh'', ''-c'', []] = Inr ID"
  proof -
    have c1: "c1 = c\<lparr>dockerClient := True\<rparr>"
      using n by (rule NewDockerClient_sets_client)
    then have f: "fullImageName c1 = fullImageName c" and d: "dockerClient c1"
      and k: "Command c1 = Command c"
      by (simp_all add: fullImageName_def)
    have cr: "Create rt repositoryURL branch c1 w2 =
        Returns (None, c1\<lparr>CID := ID\<rparr>,
          emit (ContainerCreate (fullImageName c) True [''/bin/sh'', ''-c'', []]) w2)"
      using create [OF d k, of w2] a f by simp
    have "dockerClient (c1\<lparr>CID := ID\<rparr>)"
      using d by simp
    from Run_step3_after_Create [OF cr this]
    obtain r c' w' rest where
      s: "Run_step3 rt repositoryURL branch c1 w2 = Returns (r, c', w')"
      and t: "trace w' = trace (emit (ContainerCreate (fullImageName c) True [''/bin/sh'', ''-c'', []]) w2)
                @ [ContainerStart (CID (c1\<lparr>CID := ID\<rparr>))] @ rest"
      by blast
    have "Run rt repositoryURL branch c w = Run_step3 rt repositoryURL branch c1 w2"
      using n l by (auto simp: Run_def)
    then show ?thesis
      using s t by (simp add: emit_def)
  qed
  show ?thesis
    using first second by blast
qed

theorem empty_command_is_created_and_started_witness:
  "Create sampleRuntime [] ''main'' connectedContainer sampleWorld =
     Returns (None, connectedContainer\<lparr>CID := ''c0ffee''\<rparr>,
       emit (ContainerCreate ''huskyci/retirejs:latest'' True [''/bin/sh'', ''-c'', []]) sampleWorld) \<and>
   (\<exists>r c' w' rest.
      Run sampleRuntime [] ''main'' sampleContainer sampleWorld = Returns (r, c', w') \<and>
      trace w' =
        [ImageList ''huskyci/retirejs:latest'',
         ContainerCreate ''huskyci/retirejs:latest'' True [''/bin/sh'', ''-c'', []],
         ContainerStart ''c0ffee''] @ rest)"
proof -
  have e: "([]::string) = [] \<or> ''main'' = [] \<or> Command connectedContainer = []"
    by simp
  have d: "dockerClient connectedContainer"
    by (simp add: connectedContainer_def)
  have a: "Create sampleRuntime [] ''main'' connectedContainer sampleWorld =
     Returns (None, connectedContainer\<lparr>CID := ''c0ffee''\<rparr>,
       emit (ContainerCreate ''huskyci/retirejs:latest'' True [''/bin/sh'', ''-c'', []]) sampleWorld)"
    using empty_command_is_created_and_started [OF e, of sampleRuntime sampleWorld] d
    by (simp add: sampleRuntime_def fullImageName_def connectedContainer_def sampleContainer_def)
  obtain w1 where n: "NewDockerClient sampleRuntime sampleContainer sampleWorld =
      (None, connectedContainer, w1)" and t1: "trace w1 = []"
    by (simp add: NewDockerClient_def setDockerClientEnvs_def os_Setenv_def os_Getenv_def
        sampleRuntime_def sampleWorld_def connectedContainer_def)
  have l: "ImageIsLoaded sampleRuntime connectedContainer w1 =
      Returns (Inr True, emit (ImageList ''huskyci/retirejs:latest'') w1)"
    by (simp add: ImageIsLoaded_def sampleRuntime_def connectedContainer_def sampleContainer_def
        fullImageName_def)
  have r: "ContainerCreate_res sampleRuntime
      (trace (emit (ImageList ''huskyci/retirejs:latest'') w1))
      (fullImageName sampleContainer) [''/bin/sh'', ''-c'', []] = Inr ''c0ffee''"
    by (simp add: sampleRuntime_def)
  have e2: "([]::string) = [] \<or> ''main'' = [] \<or> Command sampleContainer = []"
    by simp
  have b: "\<exists>r c' w' rest.
      Run sampleRuntime [] ''main'' sampleContainer sampleWorld = Returns (r, c', w') \<and>
      trace w' =
        [ImageList ''huskyci/retirejs:latest'',
         ContainerCreate ''huskyci/retirejs:latest'' True [''/bin/sh'', ''-c'', []],
         ContainerStart ''c0ffee''] @ rest"
    using empty_command_is_created_and_started [OF e2, of sampleRuntime sampleWorld
        connectedContainer w1 "emit (ImageList ''huskyci/retirejs:latest'') w1" "''c0ffee''"]
      n l r t1
    by (simp add: emit_def fullImageName_def sampleContainer_def)
  show ?thesis using a b by blast
qed

text \<open>
  C2. The claim is that the removal of the container is requested on every exit path of
  \<open>Run\<close>. On the three paths below (the start fails, the wait fails, the output cannot be
  read) the container has been created and \<open>Run\<close> returns the error without a
  \<open>ContainerRemove\<close> request.
\<close>

theorem Run_error_paths_leave_container:
  "map_option fst (returned (Run startFails ''git@x/y'' ''main'' sampleContainer sampleWorld)) =
     Some (Some ''cannot start'') \<and>
   map_option (trace \<circ> snd \<circ> snd)
       (returned (Run startFails ''git@x/y'' ''main'' sampleContainer sampleWorld)) =
     Some [ImageList ''huskyci/retirejs:latest'',
      ContainerCreate ''huskyci/retirejs:latest'' True [''/bin/sh'', ''-c'', ''scan.sh git@x/y main''],
      ContainerStart ''c0ffee'',
      log_Error ''RUN'' ''CONTAINER'' 3015
        [S ''huskyci/retirejs'', S ''latest'', E (Some ''cannot start'')]] \<and>
   map_option fst (returned (Run waitFails ''git@x/y'' ''main'' sampleContainer sampleWorld)) =
     Some (Some ''connection lost'') \<and>
   map_option (trace \<circ> snd \<circ> snd)
       (returned (Run waitFails ''git@x/y'' ''main'' sampleContainer sampleWorld)) =
     Some [ImageList ''huskyci/retirejs:latest'',
      ContainerCreate ''huskyci/retirejs:latest'' True [''/bin/sh'', ''-c'', ''scan.sh git@x/y main''],
      ContainerStart ''c0ffee'',
      log_Info ''RUN'' ''CONTAINER'' 32 [S ''huskyci/retirejs'', S ''latest''],
      ContainerWait ''c0ffee'',
      log_Error ''Wait'' ''CONTAINER'' 3028 [I (- 1), E (Some ''connection lost'')],
      log_Error ''RUN'' ''CONTAINER'' 3016 [E (Some ''connection lost'')]] \<and>
   map_option fst (returned (Run readFails ''git@x/y'' ''main'' sampleContainer sampleWorld)) =
     Some (Some ''no such container'') \<and>
   map_option (trace \<circ> snd \<circ> snd)
       (returned (Run readFails ''git@x/y'' ''main'' sampleContainer sampleWorld)) =
     Some [ImageList ''huskyci/retirejs:latest'',
      ContainerCreate ''huskyci/retirejs:latest'' True [''/bin/sh'', ''-c'', ''scan.sh git@x/y main''],
      ContainerStart ''c0ffee'',
      log_Info ''RUN'' ''CONTAINER'' 32 [S ''huskyci/retirejs'', S ''latest''],
      ContainerWait ''c0ffee'',
      ContainerLogs ''c0ffee'' True False,
      log_Error ''RUN'' ''CONTAINER'' 3007 [E (Some ''no such container'')]]"
  by (simp add: run_defs startFails_def waitFails_def readFails_def)

text \<open>
  C8. The claim is that \<open>Status\<close> becomes \<open>finished\<close> whether or not the output can
  be read. When \<open>ReadOutput\<close> fails, \<open>Run\<close> returns before the assignment:
  \<open>FinishedAt\<close> is set and \<open>Status\<close> is still \<open>running\<close>, while the failed wait
  of the path before it does set \<open>finished\<close>.
\<close>

theorem Run_read_failure_stays_running:
  "map_option fst (returned (Run readFails ''git@x/y'' ''main'' sampleContainer sampleWorld)) =
     Some (Some ''no such container'') \<and>
   map_option (Status \<circ> fst \<circ> snd)
       (returned (Run readFails ''git@x/y'' ''main'' sampleContainer sampleWorld)) = Some ''running'' \<and>
   map_option (FinishedAt \<circ> fst \<circ> snd)
       (returned (Run readFails ''git@x/y'' ''main'' sampleContainer sampleWorld)) = Some 1005 \<and>
   map_option (Status \<circ> fst \<circ> snd)
       (returned (Run waitFails ''git@x/y'' ''main'' sampleContainer sampleWorld)) = Some ''finished''"
  by (simp add: run_defs readFails_def waitFails_def)

subsection \<open>Run does not panic\<close>

text \<open>\<open>Run\<close> sets the client before any call through it, so each of its calls returns.\<close>

lemma PullImageWorker_loop_returns:
  "dockerClient c \<Longrightarrow> \<exists>r. PullImageWorker_loop k rt c w = Returns r"
  by (induction k arbitrary: w)
    (auto simp: ImageIsLoaded_def PullImage_def split: sum.splits option.splits)

lemma Run_step3_returns:
  "dockerClient c \<Longrightarrow> \<exists>r. Run_step3 rt u b c w = Returns r"
  by (auto simp: Run_step3_def Create_def Start_def Wait_def ReadOutput_def Remove_def Let_def
      split: sum.splits option.splits prod.splits)

lemma Run_returns: "\<exists>r. Run rt u b c w = Returns r"
proof -
  obtain e c1 w1 where n: "NewDockerClient rt c w = (e, c1, w1)"
    by (cases "NewDockerClient rt c w")
  show ?thesis
  proof (cases e)
    case (Some err)
    then show ?thesis using n by (simp add: Run_def)
  next
    case None
    then have d: "dockerClient c1"
      using n NewDockerClient_sets_client [of rt c w c1 w1] by simp
    obtain l w2 where i: "ImageIsLoaded rt c1 w1 = Returns (l, w2)"
      using d by (cases "ImageList_res rt (trace w1) (fullImageName c1)")
        (auto simp: ImageIsLoaded_def)
    obtain p where k: "PullImageWorker rt c1 w2 = Returns p"
      using PullImageWorker_loop_returns [OF d, of "ticks_before_timeout rt" rt
          "emit (time_NewTicker (15 * time_Second)) (emit (time_After (15 * time_Minute)) w2)"]
      unfolding PullImageWorker_def by blast
    show ?thesis
      using n None i k Run_step3_returns [OF d]
      by (cases l; cases p) (auto simp: Run_def split: option.splits)
  qed
qed

subsection \<open>Removal requests in general\<close>

lemma removalAttempts_append:
  "removalAttempts (xs @ ys) = removalAttempts xs @ removalAttempts ys"
  by (induction xs rule: removalAttempts.induct) auto

lemma removalAttempts_setDockerClientEnvs:
  "removalAttempts (trace (snd (setDockerClientEnvs rt w))) = removalAttempts (trace w)"
  by (simp add: setDockerClientEnvs_def os_Setenv_def emit_def Let_def removalAttempts_append
      split: option.split)

lemma removalAttempts_NewDockerClient:
  "removalAttempts (trace (snd (snd (NewDockerClient rt c w)))) = removalAttempts (trace w)"
proof -
  obtain e w1 where s: "setDockerClientEnvs rt w = (e, w1)"
    by (cases "setDockerClientEnvs rt w")
  then have "removalAttempts (trace w1) = removalAttempts (trace w)"
    using removalAttempts_setDockerClientEnvs [of rt w] by simp
  then show ?thesis
    using s by (simp add: NewDockerClient_def split: option.split)
qed

lemma removalAttempts_ImageIsLoaded:
  "ImageIsLoaded rt c w = Returns (r, w') \<Longrightarrow>
     removalAttempts (trace w') = removalAttempts (trace w)"
  by (auto simp: ImageIsLoaded_def emit_def removalAttempts_append split: sum.splits if_splits)

lemma removalAttempts_PullImage:
  "PullImage rt c w = Returns (r, w') \<Longrightarrow>
     removalAttempts (trace w') = removalAttempts (trace w)"
  by (auto simp: PullImage_def emit_def removalAttempts_append split: if_splits)

lemma removalAttempts_emit:
  "removalAttempts (trace (emit (log_Info a i n xs) w)) = removalAttempts (trace w)"
  "removalAttempts (trace (emit (log_Error a i n xs) w)) = removalAttempts (trace w)"
  "removalAttempts (trace (emit retryTick_received w)) = removalAttempts (trace w)"
  "removalAttempts (trace (emit timeout_received w)) = removalAttempts (trace w)"
  "removalAttempts (trace (emit (time_After d) w)) = removalAttempts (trace w)"
  "removalAttempts (trace (emit (time_NewTicker d) w)) = removalAttempts (trace w)"
  by (simp_all add: emit_def removalAttempts_append)

lemma removalAttempts_PullImageWorker_loop:
  "PullImageWorker_loop k rt c w = Returns (r, w') \<Longrightarrow>
     removalAttempts (trace w') = removalAttempts (trace w)"
proof (induction k arbitrary: w)
  case 0
  then show ?case by (auto simp: removalAttempts_emit)
next
  case (Suc k)
  let ?w0 = "emit (log_Info ''pullImageWorker'' ''HUSKYDOCKER'' 31 [S (Name (Image c))])
               (emit retryTick_received w)"
  from Suc.prems obtain l w1 where l: "ImageIsLoaded rt c ?w0 = Returns (l, w1)"
    by (cases "ImageIsLoaded rt c ?w0") auto
  have w1: "removalAttempts (trace w1) = removalAttempts (trace w)"
    using removalAttempts_ImageIsLoaded [OF l] by (simp add: removalAttempts_emit)
  show ?case
  proof (cases l)
    case (Inl err)
    then show ?thesis using Suc.prems l w1 by (auto simp: removalAttempts_emit)
  next
    case (Inr isLoaded)
    show ?thesis
    proof (cases isLoaded)
      case True
      then show ?thesis using Suc.prems l Inr w1 by (auto simp: removalAttempts_emit)
    next
      case False
      with Suc.prems l Inr obtain e w2 where p: "PullImage rt c w1 = Returns (e, w2)"
        by (cases "PullImage rt c w1") auto
      have w2: "removalAttempts (trace w2) = removalAttempts (trace w)"
        using removalAttempts_PullImage [OF p] w1 by simp
      show ?thesis
        using Suc.prems l Inr False p w2 Suc.IH [of w2]
        by (cases e) (auto simp: removalAttempts_emit)
    qed
  qed
qed

lemma removalAttempts_PullImageWorker:
  "PullImageWorker rt c w = Returns (r, w') \<Longrightarrow>
     removalAttempts (trace w') = removalAttempts (trace w)"
  using removalAttempts_PullImageWorker_loop
    [of "ticks_before_timeout rt" rt c
        "emit (time_NewTicker (15 * time_Second)) (emit (time_After (15 * time_Minute)) w)" r w']
  by (simp add: PullImageWorker_def removalAttempts_emit)

lemma Run_step3_removal:
  "Run_step3 rt u b c w = Returns (r, c', w') \<Longrightarrow>
     removalAttempts (trace w') =
       removalAttempts (trace w) @ (case r of None \<Rightarrow> [CID c'] | Some err \<Rightarrow> [])"
  by (auto simp: Run_step3_def Create_def Start_def Wait_def ReadOutput_def Remove_def
      emit_def Let_def removalAttempts_append
      split: prod.splits option.splits sum.splits if_splits outcome.splits)

lemma Run_removal:
  assumes "Run rt u b c w = Returns (r, c', w')"
  shows "removalAttempts (trace w') =
       removalAttempts (trace w) @ (case r of None \<Rightarrow> [CID c'] | Some err \<Rightarrow> [])"
proof -
  obtain e c1 w1 where n: "NewDockerClient rt c w = (e, c1, w1)"
    by (cases "NewDockerClient rt c w")
  have w1: "removalAttempts (trace w1) = removalAttempts (trace w)"
    using removalAttempts_NewDockerClient [of rt c w] n by simp
  show ?thesis
  proof (cases e)
    case (Some err)
    then show ?thesis
      using assms n w1 by (auto simp: Run_def removalAttempts_emit)
  next
    case None
    with assms n obtain l w2 where i: "ImageIsLoaded rt c1 w1 = Returns (l, w2)"
      by (cases "ImageIsLoaded rt c1 w1") (auto simp: Run_def)
    have w2: "removalAttempts (trace w2) = removalAttempts (trace w)"
      using removalAttempts_ImageIsLoaded [OF i] w1 by simp
    show ?thesis
    proof (cases l)
      case (Inl err)
      then show ?thesis using assms n None i w2 by (auto simp: Run_def)
    next
      case (Inr loaded)
      show ?thesis
      proof (cases loaded)
        case True
        then show ?thesis
          using assms n None i Inr w2 Run_step3_removal [of rt u b c1 w2 r c' w']
          by (auto simp: Run_def)
      next
        case False
        with assms n None i Inr obtain p w3 where k: "PullImageWorker rt c1 w2 = Returns (p, w3)"
          by (cases "PullImageWorker rt c1 w2") (auto simp: Run_def)
        have w3: "removalAttempts (trace w3) = removalAttempts (trace w)"
          using removalAttempts_PullImageWorker [OF k] w2 by simp
        show ?thesis
          using assms n None i Inr False k w3 Run_step3_removal [of rt u b c1 w3 r c' w']
          by (cases p) (auto simp: Run_def)
      qed
    qed
  qed
qed

text \<open>
  The lemma above says that \<open>Run\<close> requests the removal of the container exactly when it
  returns no error. The answer of the runtime to that request changes neither the error
  \<open>Run\<close> returns nor the container record, and a removal that fails is logged with
  code 3027.
\<close>

lemma os_Setenv_ignores_removal_answer:
  "os_Setenv (rt\<lparr>ContainerRemove_err := g\<rparr>) = os_Setenv rt"
  by (simp add: fun_eq_iff os_Setenv_def)

lemma setDockerClientEnvs_ignores_removal_answer:
  "setDockerClientEnvs (rt\<lparr>ContainerRemove_err := g\<rparr>) = setDockerClientEnvs rt"
  by (simp add: fun_eq_iff setDockerClientEnvs_def os_Setenv_ignores_removal_answer
      cong: prod.case_cong option.case_cong)

lemma ignores_removal_answer:
  "NewDockerClient (rt\<lparr>ContainerRemove_err := g\<rparr>) = NewDockerClient rt"
  "ImageIsLoaded (rt\<lparr>ContainerRemove_err := g\<rparr>) = ImageIsLoaded rt"
  "PullImage (rt\<lparr>ContainerRemove_err := g\<rparr>) = PullImage rt"
  "Create (rt\<lparr>ContainerRemove_err := g\<rparr>) = Create rt"
  "Start (rt\<lparr>ContainerRemove_err := g\<rparr>) = Start rt"
  "Wait (rt\<lparr>ContainerRemove_err := g\<rparr>) = Wait rt"
  "ReadOutput (rt\<lparr>ContainerRemove_err := g\<rparr>) = ReadOutput rt"
  by (simp_all add: fun_eq_iff setDockerClientEnvs_ignores_removal_answer NewDockerClient_def
      ImageIsLoaded_def PullImage_def Create_def Start_def Wait_def ReadOutput_def Let_def
      cong: prod.case_cong option.case_cong sum.case_cong if_cong)

lemma PullImageWorker_loop_ignores_removal_answer:
  "PullImageWorker_loop k (rt\<lparr>ContainerRemove_err := g\<rparr>) c w = PullImageWorker_loop k rt c w"
  by (induction k arbitrary: w)
    (simp_all add: ignores_removal_answer
      cong: prod.case_cong sum.case_cong option.case_cong outcome.case_cong if_cong)

lemma Run_step3_ignores_removal_answer:
  "map_option fst (returned (Run_step3 (rt\<lparr>ContainerRemove_err := g\<rparr>) u b c w)) =
     map_option fst (returned (Run_step3 rt u b c w)) \<and>
   map_option (fst \<circ> snd) (returned (Run_step3 (rt\<lparr>ContainerRemove_err := g\<rparr>) u b c w)) =
     map_option (fst \<circ> snd) (returned (Run_step3 rt u b c w))"
  by (simp add: Run_step3_def ignores_removal_answer Remove_def Let_def
      split: prod.split option.split outcome.split)

lemma Run_ignores_removal_answer:
  "map_option fst (returned (Run (rt\<lparr>ContainerRemove_err := g\<rparr>) u b c w)) =
     map_option fst (returned (Run rt u b c w)) \<and>
   map_option (fst \<circ> snd) (returned (Run (rt\<lparr>ContainerRemove_err := g\<rparr>) u b c w)) =
     map_option (fst \<circ> snd) (returned (Run rt u b c w))"
  by (simp add: Run_def ignores_removal_answer PullImageWorker_def
      PullImageWorker_loop_ignores_removal_answer Run_step3_ignores_removal_answer
      split: prod.split option.split sum.split outcome.split)

lemma Run_removal_failure_is_logged:
  "map_option fst (returned (Run removeFails ''git@x/y'' ''main'' sampleContainer sampleWorld)) =
     Some None \<and>
   map_option (Status \<circ> fst \<circ> snd)
       (returned (Run removeFails ''git@x/y'' ''main'' sampleContainer sampleWorld)) = Some ''finished'' \<and>
   map_option (trace \<circ> snd \<circ> snd)
       (returned (Run removeFails ''git@x/y'' ''main'' sampleContainer sampleWorld)) =
     Some [ImageList ''huskyci/retirejs:latest'',
      ContainerCreate ''huskyci/retirejs:latest'' True [''/bin/sh'', ''-c'', ''scan.sh git@x/y main''],
      ContainerStart ''c0ffee'',
      log_Info ''RUN'' ''CONTAINER'' 32 [S ''huskyci/retirejs'', S ''latest''],
      ContainerWait ''c0ffee'',
      ContainerLogs ''c0ffee'' True False,
      log_Info ''RUN'' ''CONTAINER'' 34 [S ''huskyci/retirejs'', S ''latest''],
      ContainerRemove ''c0ffee'',
      log_Error ''RUN'' ''CONTAINER'' 3027 [E (Some ''removal in progress'')]]"
  by (simp add: run_defs removeFails_def)

subsection \<open>The pull worker\<close>

text \<open>
  While the image stays absent and every pull succeeds, every turn of the worker is a tick
  with its presence check and its pull, and the worker ends in the timeout case.
\<close>

lemma PullImageWorker_loop_absent:
  assumes "dockerClient c"
    and "\<forall>tr ref. ImageList_res rt tr ref = Inr 0"
    and "\<forall>tr ref. ImagePull_err rt tr ref = None"
  shows "PullImageWorker_loop k rt c w =
           Returns (Some ''timeout'',
             w\<lparr>trace := trace w @ concat (replicate k (pollRound c)) @
                [timeout_received,
                 log_Error ''pullImageWorker'' ''HUSKYDOCKER'' 3013 [E (Some ''timeout'')]]\<rparr>)"
  using assms
  by (induction k arbitrary: w)
    (simp_all add: ImageIsLoaded_def PullImage_def emit_def pollRound_def)

lemma PullImageWorker_absent:
  assumes "dockerClient c"
    and "\<forall>tr ref. ImageList_res rt tr ref = Inr 0"
    and "\<forall>tr ref. ImagePull_err rt tr ref = None"
  shows "PullImageWorker rt c w =
           Returns (Some ''timeout'', w\<lparr>trace := trace w @ absentImageTrace rt c\<rparr>)"
  using PullImageWorker_loop_absent [OF assms]
  by (simp add: PullImageWorker_def absentImageTrace_def emit_def)

lemma pollsBeforeFirstTick_rounds:
  "pollsBeforeFirstTick (concat (replicate k (pollRound c)) @ timeout_received # es) =
     (if k = 0 then pollsBeforeFirstTick es else 0)"
  by (cases k) (simp_all add: pollRound_def)

lemma polls_append: "polls (xs @ ys) = polls xs + polls ys"
  by (induction xs rule: polls.induct) simp_all

lemma polls_rounds: "polls (concat (replicate k (pollRound c))) = k"
  by (induction k) (simp_all add: pollRound_def)

lemma pollsBeforeFirstTick_absentImageTrace:
  "pollsBeforeFirstTick (absentImageTrace rt c) = 0"
  by (simp add: absentImageTrace_def pollsBeforeFirstTick_rounds)

lemma polls_absentImageTrace: "polls (absentImageTrace rt c) = ticks_before_timeout rt"
  by (simp add: absentImageTrace_def polls_append polls_rounds)

lemma absent_hyps:
  "\<forall>tr ref. ImageList_res imageAbsentTwoTicks tr ref = Inr 0"
  "\<forall>tr ref. ImagePull_err imageAbsentTwoTicks tr ref = None"
  "dockerClient connectedContainer"
  by (simp_all add: imageAbsentTwoTicks_def imageAbsent_def sampleRuntime_def connectedContainer_def)

text \<open>
  C9, as stated, fails. The worker waits for the first tick of its 15-second ticker before it
  looks for the image: with two ticks taken before the timeout, its trace starts with the
  timer, the ticker and the first tick, and no presence check comes before that tick.
\<close>

theorem worker_first_poll_follows_first_tick:
  "map_option (trace \<circ> snd)
       (returned (PullImageWorker imageAbsentTwoTicks connectedContainer sampleWorld)) =
     Some [time_After 900000000000, time_NewTicker 15000000000,
       retryTick_received,
       log_Info ''pullImageWorker'' ''HUSKYDOCKER'' 31 [S ''huskyci/retirejs''],
       ImageList ''huskyci/retirejs:latest'',
       ImagePull ''docker.io/huskyci/retirejs'',
       retryTick_received,
       log_Info ''pullImageWorker'' ''HUSKYDOCKER'' 31 [S ''huskyci/retirejs''],
       ImageList ''huskyci/retirejs:latest'',
       ImagePull ''docker.io/huskyci/retirejs'',
       timeout_received,
       log_Error ''pullImageWorker'' ''HUSKYDOCKER'' 3013 [E (Some ''timeout'')]] \<and>
   map_option (pollsBeforeFirstTick \<circ> trace \<circ> snd)
       (returned (PullImageWorker imageAbsentTwoTicks connectedContainer sampleWorld)) = Some 0"
proof -
  have w: "PullImageWorker imageAbsentTwoTicks connectedContainer sampleWorld =
      Returns (Some ''timeout'',
        sampleWorld\<lparr>trace := trace sampleWorld @
          absentImageTrace imageAbsentTwoTicks connectedContainer\<rparr>)"
    by (rule PullImageWorker_absent [OF absent_hyps(3) absent_hyps(1) absent_hyps(2)])
  have t: "trace sampleWorld @ absentImageTrace imageAbsentTwoTicks connectedContainer =
     [time_After 900000000000, time_NewTicker 15000000000,
       retryTick_received,
       log_Info ''pullImageWorker'' ''HUSKYDOCKER'' 31 [S ''huskyci/retirejs''],
       ImageList ''huskyci/retirejs:latest'',
       ImagePull ''docker.io/huskyci/retirejs'',
       retryTick_received,
       log_Info ''pullImageWorker'' ''HUSKYDOCKER'' 31 [S ''huskyci/retirejs''],
       ImageList ''huskyci/retirejs:latest'',
       ImagePull ''docker.io/huskyci/retirejs'',
       timeout_received,
       log_Error ''pullImageWorker'' ''HUSKYDOCKER'' 3013 [E (Some ''timeout'')]]"
    by (simp add: absentImageTrace_def pollRound_def time_Minute_def time_Second_def
        imageAbsentTwoTicks_def connectedContainer_def sampleContainer_def sampleWorld_def
        fullImageName_def numeral_2_eq_2)
  show ?thesis
    unfolding w by (simp add: t)
qed

text \<open>
  C9, amended. When the image is absent at every presence check and every pull succeeds,
  \<open>PullImageWorker\<close> sets up a timer of 15 minutes and a ticker of 15 seconds, makes one
  presence check and one pull after each tick it receives and none before the first tick, and
  returns the error \<open>timeout\<close> when it receives from the timer. The one presence check
  before the first tick is that of \<open>Run\<close> itself, made before it calls the worker; a
  \<open>Run\<close> on such an image returns the same error without creating a container.
\<close>

theorem worker_polls_on_ticks_only:
  assumes "\<forall>tr ref. ImageList_res rt tr ref = Inr 0"
    and "\<forall>tr ref. ImagePull_err rt tr ref = None"
  shows
   "(dockerClient c \<longrightarrow>
       PullImageWorker rt c w =
         Returns (Some ''timeout'', w\<lparr>trace := trace w @ absentImageTrace rt c\<rparr>)) \<and>
    (NewDockerClient rt c w = (None, c1, w1) \<longrightarrow>
       Run rt repositoryURL branch c w =
         Returns (Some ''timeout'', c1,
           w1\<lparr>trace := trace w1 @ ImageList (fullImageName c) # absentImageTrace rt c\<rparr>)) \<and>
    pollsBeforeFirstTick (absentImageTrace rt c) = 0 \<and>
    polls (absentImageTrace rt c) = ticks_before_timeout rt \<and>
    pollsBeforeFirstTick (ImageList (fullImageName c) # absentImageTrace rt c) = 1"
proof -
  have worker: "dockerClient c \<longrightarrow>
       PullImageWorker rt c w =
         Returns (Some ''timeout'', w\<lparr>trace := trace w @ absentImageTrace rt c\<rparr>)"
    using PullImageWorker_absent assms by blast
  have run: "Run rt repositoryURL branch c w =
         Returns (Some ''timeout'', c1,
           w1\<lparr>trace := trace w1 @ ImageList (fullImageName c) # absentImageTrace rt c\<rparr>)"
    if n: "NewDockerClient rt c w = (None, c1, w1)"
  proof -
    have c1: "c1 = c\<lparr>dockerClient := True\<rparr>"
      using n by (rule NewDockerClient_sets_client)
    then have d: "dockerClient c1" and f: "fullImageName c1 = fullImageName c"
      and a: "absentImageTrace rt c1 = absentImageTrace rt c"
      by (simp_all add: fullImageName_def absentImageTrace_def pollRound_def)
    have l: "ImageIsLoaded rt c1 w1 = Returns (Inr False, emit (ImageList (fullImageName c)) w1)"
      using d f assms(1) by (simp add: ImageIsLoaded_def)
    have p: "PullImageWorker rt c1 (emit (ImageList (fullImageName c)) w1) =
        Returns (Some ''timeout'',
          w1\<lparr>trace := trace w1 @ ImageList (fullImageName c) # absentImageTrace rt c\<rparr>)"
      using PullImageWorker_absent [OF d assms, of "emit (ImageList (fullImageName c)) w1"] a
      by (simp add: emit_def)
    show ?thesis
      using n l p by (simp add: Run_def)
  qed
  show ?thesis
    using worker run pollsBeforeFirstTick_absentImageTrace [of rt c]
      polls_absentImageTrace [of rt c]
    by simp
qed

theorem worker_polls_on_ticks_only_witness:
  "(\<forall>tr ref. ImageList_res imageAbsentTwoTicks tr ref = Inr 0) \<and>
   (\<forall>tr ref. ImagePull_err imageAbsentTwoTicks tr ref = None) \<and>
   dockerClient connectedContainer \<and>
   PullImageWorker imageAbsentTwoTicks connectedContainer sampleWorld =
     Returns (Some ''timeout'',
       sampleWorld\<lparr>trace := absentImageTrace imageAbsentTwoTicks connectedContainer\<rparr>) \<and>
   (\<exists>w1. NewDockerClient imageAbsentTwoTicks sampleContainer sampleWorld =
            (None, connectedContainer, w1) \<and>
         Run imageAbsentTwoTicks ''git@x/y'' ''main'' sampleContainer sampleWorld =
           Returns (Some ''timeout'', connectedContainer,
             w1\<lparr>trace := trace w1 @ ImageList ''huskyci/retirejs:latest'' #
                   absentImageTrace imageAbsentTwoTicks sampleContainer\<rparr>)) \<and>
   polls (absentImageTrace imageAbsentTwoTicks connectedContainer) = 2"
proof -
  obtain w1 where n: "NewDockerClient imageAbsentTwoTicks sampleContainer sampleWorld =
      (None, connectedContainer, w1)"
    by (simp add: NewDockerClient_def setDockerClientEnvs_def os_Setenv_def os_Getenv_def
        imageAbsentTwoTicks_def imageAbsent_def sampleRuntime_def sampleWorld_def
        connectedContainer_def)
  have t: "trace sampleWorld = []"
    by (simp add: sampleWorld_def)
  have k: "ticks_before_timeout imageAbsentTwoTicks = 2"
    by (simp add: imageAbsentTwoTicks_def)
  have f: "fullImageName sampleContainer = ''huskyci/retirejs:latest''"
    by (simp add: fullImageName_def sampleContainer_def)
  have a: "PullImageWorker imageAbsentTwoTicks connectedContainer sampleWorld =
     Returns (Some ''timeout'',
       sampleWorld\<lparr>trace := absentImageTrace imageAbsentTwoTicks connectedContainer\<rparr>)"
    and p: "polls (absentImageTrace imageAbsentTwoTicks connectedContainer) = 2"
    using worker_polls_on_ticks_only [OF absent_hyps(1) absent_hyps(2),
        of connectedContainer sampleWorld]
      absent_hyps(3) t k
    by simp_all
  have b: "Run imageAbsentTwoTicks ''git@x/y'' ''main'' sampleContainer sampleWorld =
           Returns (Some ''timeout'', connectedContainer,
             w1\<lparr>trace := trace w1 @ ImageList ''huskyci/retirejs:latest'' #
                   absentImageTrace imageAbsentTwoTicks sampleContainer\<rparr>)"
    using worker_polls_on_ticks_only [OF absent_hyps(1) absent_hyps(2),
        of sampleContainer sampleWorld connectedContainer w1 "''git@x/y''" "''main''"] n f
    by simp
  show ?thesis
    using a b p n absent_hyps by blast
qed

end
